theory Spec2Isabelle
  imports Complex_Main
begin

section \<open>Python values handled by server.py\<close>

text \<open>
  The server moves JSON values around as Python objects (\<^verbatim>\<open>json.loads\<close>,
  \<^verbatim>\<open>request.json\<close>, \<^verbatim>\<open>response.json()\<close>). A Python \<^verbatim>\<open>str\<close> is a \<open>string\<close>;
  a \<open>char\<close> stands for a code point in U+0000..U+00FF. A \<^verbatim>\<open>dict\<close> is an association
  list read with \<open>map_of\<close> (the first binding of a key is the dict's entry).
\<close>

datatype pyfloat = FVal real | FInf | FNegInf | FNaN

datatype json =
    JNull
  | JBool bool
  | JInt int
  | JFloat pyfloat
  | JStr string
  | JArr "json list"
  | JObj "(string \<times> json) list"

text \<open>Python truth value testing (\<^verbatim>\<open>if x\<close>, \<^verbatim>\<open>not x\<close>).\<close>

fun truthy :: "json \<Rightarrow> bool" where
  "truthy JNull = False"
| "truthy (JBool b) = b"
| "truthy (JInt n) = (n \<noteq> 0)"
| "truthy (JFloat f) = (f \<noteq> FVal 0)"
| "truthy (JStr s) = (s \<noteq> [])"
| "truthy (JArr xs) = (xs \<noteq> [])"
| "truthy (JObj kvs) = (kvs \<noteq> [])"

text \<open>\<^verbatim>\<open>d.get(k, default)\<close> on a dict.\<close>

definition dict_get :: "(string \<times> json) list \<Rightarrow> string \<Rightarrow> json \<Rightarrow> json" where
  "dict_get kvs k d = (case map_of kvs k of Some v \<Rightarrow> v | None \<Rightarrow> d)"

text \<open>\<^verbatim>\<open>type(x).__name__\<close>, as it appears in the interpreter's error messages.\<close>

fun type_name :: "json \<Rightarrow> string" where
  "type_name JNull = ''NoneType''"
| "type_name (JBool b) = ''bool''"
| "type_name (JInt n) = ''int''"
| "type_name (JFloat f) = ''float''"
| "type_name (JStr s) = ''str''"
| "type_name (JArr xs) = ''list''"
| "type_name (JObj kvs) = ''dict''"

definition quoted :: "string \<Rightarrow> string" where
  "quoted s = [CHR 0x27] @ s @ [CHR 0x27]"

text \<open>\<^verbatim>\<open>sub in s\<close> on two strings: \<open>sub\<close> occurs in \<open>s\<close> as a contiguous run.\<close>

fun starts_with :: "string \<Rightarrow> string \<Rightarrow> bool" where
  "starts_with [] s = True"
| "starts_with (c # cs) [] = False"
| "starts_with (c # cs) (d # ds) = (c = d \<and> starts_with cs ds)"

fun str_contains :: "string \<Rightarrow> string \<Rightarrow> bool" where
  "str_contains sub [] = (sub = [])"
| "str_contains sub (c # cs) = (starts_with sub (c # cs) \<or> str_contains sub cs)"

text \<open>
  \<^verbatim>\<open>str.strip()\<close>: the characters for which \<^verbatim>\<open>str.isspace\<close> holds, among the code
  points below U+0100: TAB, LF, VT, FF, CR, FS, GS, RS, US, SPACE, NEL, NBSP.
\<close>

definition py_isspace :: "char \<Rightarrow> bool" where
  "py_isspace c = (of_char c \<in> {9, 10, 11, 12, 13, 28, 29, 30, 31, 32, 133, 160 :: nat})"

definition strip :: "string \<Rightarrow> string" where
  "strip s = rev (dropWhile py_isspace (rev (dropWhile py_isspace s)))"

section \<open>Exceptions\<close>

text \<open>
  The exception classes the handlers tell apart, each with its \<^verbatim>\<open>str(e)\<close>.
  \<open>ConnectionError\<close>, \<open>Timeout\<close> and \<open>RequestException\<close> are those of
  \<^verbatim>\<open>requests.exceptions\<close> (server.py imports them under these names);
  \<open>RequestException\<close> stands for every other subclass of it (\<^verbatim>\<open>HTTPError\<close>,
  \<^verbatim>\<open>ChunkedEncodingError\<close>, the \<^verbatim>\<open>JSONDecodeError\<close> of \<^verbatim>\<open>response.json()\<close>).
  \<open>JSONDecodeError\<close> is \<^verbatim>\<open>json.JSONDecodeError\<close>. \<open>OtherException\<close> is any other
  subclass of \<^verbatim>\<open>Exception\<close>, \<open>NonException\<close> a \<^verbatim>\<open>BaseException\<close> that is not an
  \<^verbatim>\<open>Exception\<close> (\<^verbatim>\<open>KeyboardInterrupt\<close>, \<^verbatim>\<open>SystemExit\<close>).
\<close>

datatype exn =
    ConnectionError string
  | Timeout string
  | RequestException string
  | JSONDecodeError string
  | UnicodeDecodeError string
  | TypeError string
  | AttributeError string
  | OtherException string
  | NonException string

fun str_exn :: "exn \<Rightarrow> string" where
  "str_exn (ConnectionError m) = m"
| "str_exn (Timeout m) = m"
| "str_exn (RequestException m) = m"
| "str_exn (JSONDecodeError m) = m"
| "str_exn (UnicodeDecodeError m) = m"
| "str_exn (TypeError m) = m"
| "str_exn (AttributeError m) = m"
| "str_exn (OtherException m) = m"
| "str_exn (NonException m) = m"

text \<open>\<^verbatim>\<open>isinstance(e, RequestException)\<close> and \<^verbatim>\<open>isinstance(e, Exception)\<close>.\<close>

fun is_RequestException :: "exn \<Rightarrow> bool" where
  "is_RequestException (ConnectionError m) = True"
| "is_RequestException (Timeout m) = True"
| "is_RequestException (RequestException m) = True"
| "is_RequestException e = False"

fun is_Exception :: "exn \<Rightarrow> bool" where
  "is_Exception (NonException m) = False"
| "is_Exception e = True"

text \<open>\<^verbatim>\<open>x.attr\<close> on an object that has no such attribute (CPython's wording).\<close>

definition no_attribute :: "json \<Rightarrow> string \<Rightarrow> exn" where
  "no_attribute v attr =
     AttributeError (quoted (type_name v) @ '' object has no attribute '' @ quoted attr)"

section \<open>Generators\<close>

text \<open>
  A run of a Python generator, as the consumer sees it: values yielded and lines logged,
  in order, until the generator returns (\<open>Stop\<close>) or an exception leaves it (\<open>Raise\<close>).
  A consumer that breaks out of its loop drops the rest of the run.
\<close>

datatype 'a gen =
    Stop
  | Raise exn
  | Yield 'a "'a gen"
  | Log string "'a gen"

fun yielded :: "'a gen \<Rightarrow> 'a list" where
  "yielded Stop = []"
| "yielded (Raise e) = []"
| "yielded (Yield x g) = x # yielded g"
| "yielded (Log s g) = yielded g"

fun logged :: "'a gen \<Rightarrow> string list" where
  "logged Stop = []"
| "logged (Raise e) = []"
| "logged (Yield x g) = logged g"
| "logged (Log s g) = s # logged g"

fun raised :: "'a gen \<Rightarrow> exn option" where
  "raised Stop = None"
| "raised (Raise e) = Some e"
| "raised (Yield x g) = raised g"
| "raised (Log s g) = raised g"

section \<open>The upstream daemon as seen through requests\<close>

record http_request =
  verb :: string
  url :: string
  json_payload :: "json option"
  streamed :: bool
  timeout_s :: nat

text \<open>
  One line of a streamed body, as \<^verbatim>\<open>generate_stream\<close> meets it: empty
  (\<^verbatim>\<open>if line:\<close> fails), or non-empty with \<^verbatim>\<open>json.loads(line.decode('utf-8'))\<close> either
  returning a value or raising (\<open>JSONDecodeError\<close> on malformed JSON,
  \<open>UnicodeDecodeError\<close> on bytes that are not UTF-8).
\<close>

datatype line =
    EmptyLine
  | JsonLine json
  | BadLine exn

text \<open>
  A \<^verbatim>\<open>requests.Response\<close>: its status code; the text of the \<^verbatim>\<open>HTTPError\<close> that
  \<^verbatim>\<open>raise_for_status()\<close> raises for it; what \<^verbatim>\<open>json()\<close> returns or raises; the lines
  \<^verbatim>\<open>iter_lines()\<close> delivers, and the exception that ends the iteration early, if any.
\<close>

record http_response =
  status_code :: nat
  status_error :: string
  json_result :: "exn + json"
  body_lines :: "line list"
  body_failure :: "exn option"

text \<open>
  The daemon and the network: what the \<open>n\<close>-th upstream call made while one client
  request is handled returns or raises.
\<close>

type_synonym upstream = "nat \<Rightarrow> http_request \<Rightarrow> exn + http_response"

definition raise_for_status :: "http_response \<Rightarrow> exn + unit" where
  "raise_for_status r =
     (if 400 \<le> status_code r \<and> status_code r < 600
      then Inl (RequestException (status_error r)) else Inr ())"

section \<open>OllamaClient\<close>

definition OLLAMA_API_URL_default :: string where
  "OLLAMA_API_URL_default = ''http://localhost:11434''"

definition DEFAULT_MODEL :: string where
  "DEFAULT_MODEL = ''codellama''"

record OllamaClient =
  base_url :: string

definition generate_payload :: "json \<Rightarrow> string \<Rightarrow> string option \<Rightarrow> json" where
  "generate_payload model prompt system_prompt =
     JObj ([(''model'', model), (''prompt'', JStr prompt), (''stream'', JBool True)] @
           (case system_prompt of
              None \<Rightarrow> []
            | Some s \<Rightarrow> if s \<noteq> [] then [(''system'', JStr s)] else []))"

definition generate_request :: "OllamaClient \<Rightarrow> json \<Rightarrow> string \<Rightarrow> string option \<Rightarrow> http_request" where
  "generate_request self model prompt system_prompt =
     \<lparr> verb = ''POST'', url = base_url self @ ''/api/generate'',
       json_payload = Some (generate_payload model prompt system_prompt),
       streamed = True, timeout_s = 300 \<rparr>"

text \<open>
  The loop over \<^verbatim>\<open>response.iter_lines()\<close> (server.py, lines 85 to 91): an empty line is
  passed over, a decoded line is yielded, a \<open>JSONDecodeError\<close> is logged and the loop
  continues; any other exception leaves the loop.
\<close>

fun iter_lines_loop :: "line list \<Rightarrow> exn option \<Rightarrow> json gen" where
  "iter_lines_loop [] None = Stop"
| "iter_lines_loop [] (Some e) = Raise e"
| "iter_lines_loop (EmptyLine # ls) f = iter_lines_loop ls f"
| "iter_lines_loop (JsonLine j # ls) f = Yield j (iter_lines_loop ls f)"
| "iter_lines_loop (BadLine e # ls) f =
     (case e of
        JSONDecodeError m \<Rightarrow> Log (''JSON decode error: '' @ m) (iter_lines_loop ls f)
      | _ \<Rightarrow> Raise e)"

definition connection_failed :: json where
  "connection_failed = JObj [(''error'', JStr ''Connection to Ollama failed. Is Ollama running?'')]"

text \<open>The two \<^verbatim>\<open>except\<close> clauses around the body of \<^verbatim>\<open>generate_stream\<close> (lines 93 to 98).\<close>

fun stream_except :: "json gen \<Rightarrow> json gen" where
  "stream_except Stop = Stop"
| "stream_except (Yield j g) = Yield j (stream_except g)"
| "stream_except (Log s g) = Log s (stream_except g)"
| "stream_except (Raise e) =
     (case e of
        ConnectionError m \<Rightarrow> Log (''Connection error: '' @ m) (Yield connection_failed Stop)
      | Timeout m \<Rightarrow> Log (''Connection error: '' @ m) (Yield connection_failed Stop)
      | RequestException m \<Rightarrow>
          Log (''Request error: '' @ m)
            (Yield (JObj [(''error'', JStr (''Request failed: '' @ m))]) Stop)
      | _ \<Rightarrow> Raise e)"

text \<open>The \<^verbatim>\<open>try\<close> body of \<^verbatim>\<open>generate_stream\<close>, given what the POST returned or raised.\<close>

definition stream_body :: "exn + http_response \<Rightarrow> json gen" where
  "stream_body posted =
     (case posted of
        Inl e \<Rightarrow> Raise e
      | Inr r \<Rightarrow>
          (case raise_for_status r of
             Inl e \<Rightarrow> Raise e
           | Inr u \<Rightarrow> iter_lines_loop (body_lines r) (body_failure r)))"

definition generate_stream ::
  "OllamaClient \<Rightarrow> upstream \<Rightarrow> json \<Rightarrow> string \<Rightarrow> string option \<Rightarrow> json gen" where
  "generate_stream self up model prompt system_prompt =
     stream_except (stream_body (up 0 (generate_request self model prompt system_prompt)))"

section \<open>The application state\<close>

text \<open>
  The module's globals that the handlers read: \<^verbatim>\<open>OLLAMA_API_URL\<close> and the client
  \<^verbatim>\<open>ollama = OllamaClient()\<close>, built when the module is loaded with the default of
  \<^verbatim>\<open>__init__\<close>'s \<^verbatim>\<open>base_url\<close> parameter.
\<close>

record app =
  OLLAMA_API_URL :: string
  ollama :: OllamaClient

definition OllamaClient_init :: "string \<Rightarrow> OllamaClient" where
  "OllamaClient_init b = \<lparr> base_url = b \<rparr>"

definition module_init :: app where
  "module_init =
     \<lparr> OLLAMA_API_URL = OLLAMA_API_URL_default,
       ollama = OllamaClient_init OLLAMA_API_URL_default \<rparr>"

record cli =
  opt_port :: "int option"
  opt_host :: "string option"
  opt_debug :: bool
  opt_ollama_url :: "string option"

record args =
  port :: int
  host :: string
  debug :: bool
  ollama_url :: string

definition parse_arguments :: "cli \<Rightarrow> args" where
  "parse_arguments c =
     \<lparr> port = (case opt_port c of Some p \<Rightarrow> p | None \<Rightarrow> 5000),
       host = (case opt_host c of Some h \<Rightarrow> h | None \<Rightarrow> ''127.0.0.1''),
       debug = opt_debug c,
       ollama_url = (case opt_ollama_url c of Some u \<Rightarrow> u | None \<Rightarrow> OLLAMA_API_URL_default) \<rparr>"

text \<open>
  What \<^verbatim>\<open>main()\<close> does to the globals before it starts the server (lines 326 to 330):
  it assigns \<^verbatim>\<open>OLLAMA_API_URL\<close> and nothing else.
\<close>

definition main_globals :: "cli \<Rightarrow> app \<Rightarrow> app" where
  "main_globals c a = a\<lparr> OLLAMA_API_URL := ollama_url (parse_arguments c) \<rparr>"

section \<open>Replies of the gateway\<close>

text \<open>
  An outbound chunk of the event stream: \<open>SseData obj\<close> is the string
  \<^verbatim>\<open>f"data: {json.dumps(obj)}\n\n"\<close>, \<open>SseDone\<close> is the literal \<^verbatim>\<open>"data: [DONE]\n\n"\<close>.
\<close>

datatype sse =
    SseData json
  | SseDone

definition sse_text :: "(json \<Rightarrow> string) \<Rightarrow> sse \<Rightarrow> string" where
  "sse_text dumps c =
     (case c of
        SseData obj \<Rightarrow> ''data: '' @ dumps obj @ [CHR 0x0A, CHR 0x0A]
      | SseDone \<Rightarrow> ''data: [DONE]'' @ [CHR 0x0A, CHR 0x0A])"

datatype content =
    JsonBody json
  | EventStream "sse gen"

record reply =
  status :: nat
  mimetype :: string
  content :: content

definition jsonify :: "json \<Rightarrow> nat \<Rightarrow> reply" where
  "jsonify obj code = \<lparr> status = code, mimetype = ''application/json'', content = JsonBody obj \<rparr>"

text \<open>What handling one client request did besides replying: upstream calls and log lines.\<close>

record io =
  calls :: "http_request list"
  logs :: "string list"

definition io0 :: io where
  "io0 = \<lparr> calls = [], logs = [] \<rparr>"

definition send :: "upstream \<Rightarrow> http_request \<Rightarrow> io \<Rightarrow> (exn + http_response) \<times> io" where
  "send up rq s = (up (length (calls s)) rq, s\<lparr> calls := calls s @ [rq] \<rparr>)"

definition log_error :: "string \<Rightarrow> io \<Rightarrow> io" where
  "log_error m s = s\<lparr> logs := logs s @ [m] \<rparr>"

section \<open>The streaming relay: chat and its generator\<close>

definition join_lines :: "string list \<Rightarrow> string" where
  "join_lines ls = concat (map (\<lambda>l. l @ [CHR 0x0A]) (butlast ls)) @ last ls"

definition system_prompt :: string where
  "system_prompt = join_lines
     [''You are an expert coding assistant. You help developers with:'',
      ''- Writing clean, efficient code'',
      ''- Debugging and fixing errors'',
      ''- Explaining complex algorithms'',
      ''- Code reviews and optimization'',
      ''- Best practices and design patterns'',
      [],
      ''Provide clear, concise answers with code examples when relevant.'',
      ''Use markdown formatting for code blocks with language specification.'']"

text \<open>
  The exception the loop body of \<^verbatim>\<open>generate()\<close> raises on an event that is not a dict,
  before it yields anything for it: \<^verbatim>\<open>'error' in chunk\<close> fails on \<^verbatim>\<open>None\<close>, a bool or a
  number; on a string or a list it is a containment test, after which either an index
  with a string key or \<^verbatim>\<open>chunk.get\<close> fails (CPython's wording).
\<close>

fun not_a_dict :: "json \<Rightarrow> exn" where
  "not_a_dict (JStr s) =
     (if str_contains ''error'' s \<or> str_contains ''response'' s
      then TypeError (''string indices must be integers, not '' @ quoted ''str'')
      else no_attribute (JStr s) ''get'')"
| "not_a_dict (JArr xs) =
     (if JStr ''error'' \<in> set xs \<or> JStr ''response'' \<in> set xs
      then TypeError ''list indices must be integers or slices, not str''
      else no_attribute (JArr xs) ''get'')"
| "not_a_dict v = TypeError (''argument of type '' @ quoted (type_name v) @ '' is not iterable'')"

definition stats_of :: "(string \<times> json) list \<Rightarrow> json" where
  "stats_of chunk =
     JObj [(''total_duration'', dict_get chunk ''total_duration'' (JInt 0)),
           (''load_duration'', dict_get chunk ''load_duration'' (JInt 0)),
           (''prompt_eval_count'', dict_get chunk ''prompt_eval_count'' (JInt 0)),
           (''eval_count'', dict_get chunk ''eval_count'' (JInt 0))]"

definition error_chunk :: "json \<Rightarrow> sse" where
  "error_chunk v = SseData (JObj [(''error'', v)])"

definition response_chunk :: "json \<Rightarrow> sse" where
  "response_chunk v = SseData (JObj [(''response'', v)])"

definition done_chunk :: "(string \<times> json) list \<Rightarrow> sse" where
  "done_chunk chunk = SseData (JObj [(''done'', JBool True), (''stats'', stats_of chunk)])"

text \<open>
  One pass of the loop body of \<^verbatim>\<open>generate()\<close> over a dict without an \<^verbatim>\<open>error\<close> key
  (lines 174 to 184): the chunks it yields, in order.
\<close>

definition relay_event :: "(string \<times> json) list \<Rightarrow> sse list" where
  "relay_event chunk =
     (case map_of chunk ''response'' of Some v \<Rightarrow> [response_chunk v] | None \<Rightarrow> []) @
     (if truthy (dict_get chunk ''done'' (JBool False)) then [done_chunk chunk] else [])"

fun yield_all :: "'a list \<Rightarrow> 'a gen \<Rightarrow> 'a gen" where
  "yield_all [] g = g"
| "yield_all (x # xs) g = Yield x (yield_all xs g)"

text \<open>The \<^verbatim>\<open>for chunk in ollama.generate_stream(...)\<close> loop (lines 169 to 184).\<close>

fun relay :: "json gen \<Rightarrow> sse gen" where
  "relay Stop = Stop"
| "relay (Raise e) = Raise e"
| "relay (Log s g) = Log s (relay g)"
| "relay (Yield chunk g) =
     (case chunk of
        JObj kvs \<Rightarrow>
          (case map_of kvs ''error'' of
             Some v \<Rightarrow> Yield (error_chunk v) Stop
           | None \<Rightarrow> yield_all (relay_event kvs) (relay g))
      | _ \<Rightarrow> Raise (not_a_dict chunk))"

text \<open>\<^verbatim>\<open>except Exception as e\<close> (lines 186 to 188).\<close>

fun relay_except :: "sse gen \<Rightarrow> sse gen" where
  "relay_except Stop = Stop"
| "relay_except (Yield c g) = Yield c (relay_except g)"
| "relay_except (Log s g) = Log s (relay_except g)"
| "relay_except (Raise e) =
     (if is_Exception e
      then Log (''Streaming error: '' @ str_exn e) (Yield (error_chunk (JStr (str_exn e))) Stop)
      else Raise e)"

text \<open>\<^verbatim>\<open>finally: yield "data: [DONE]\n\n"\<close> (lines 189 and 190).\<close>

fun relay_finally :: "sse gen \<Rightarrow> sse gen" where
  "relay_finally Stop = Yield SseDone Stop"
| "relay_finally (Raise e) = Yield SseDone (Raise e)"
| "relay_finally (Yield c g) = Yield c (relay_finally g)"
| "relay_finally (Log s g) = Log s (relay_finally g)"

definition generate :: "json gen \<Rightarrow> sse gen" where
  "generate events = relay_finally (relay_except (relay events))"

text \<open>
  The validation both \<^verbatim>\<open>chat\<close> (lines 144 to 153) and \<^verbatim>\<open>chat_simple\<close> (lines 198 to
  207) start with, on \<open>data\<close>, the value of \<^verbatim>\<open>request.json\<close> (\<open>JNull\<close> for \<^verbatim>\<open>None\<close>). It
  ends in a 400 reply, in the trimmed message and the model, or in the exception that
  \<^verbatim>\<open>data.get\<close> or \<^verbatim>\<open>.strip()\<close> raises. A body that Flask itself refuses to parse never
  reaches this code.
\<close>

datatype validation =
    Reject reply
  | Accept string json
  | Fail exn

definition validate :: "json \<Rightarrow> validation" where
  "validate data =
     (if \<not> truthy data then Reject (jsonify (JObj [(''error'', JStr ''No data provided'')]) 400)
      else
        (case data of
           JObj kvs \<Rightarrow>
             (case dict_get kvs ''message'' (JStr []) of
                JStr s \<Rightarrow>
                  (let user_message = strip s;
                       model = dict_get kvs ''model'' (JStr DEFAULT_MODEL)
                   in if user_message = []
                      then Reject (jsonify (JObj [(''error'', JStr ''Message is required'')]) 400)
                      else Accept user_message model)
              | v \<Rightarrow> Fail (no_attribute v ''strip''))
         | v \<Rightarrow> Fail (no_attribute v ''get'')))"

text \<open>
  \<^verbatim>\<open>chat\<close>: the reply, or the exception that leaves the view function, and the upstream
  calls and log lines once the client has read the whole stream.
\<close>

definition chat :: "app \<Rightarrow> upstream \<Rightarrow> json \<Rightarrow> (exn + reply) \<times> io" where
  "chat a up data =
     (case validate data of
        Reject r \<Rightarrow> (Inr r, io0)
      | Fail e \<Rightarrow> (Inl e, io0)
      | Accept user_message model \<Rightarrow>
          (let g = generate (generate_stream (ollama a) up model user_message (Some system_prompt))
           in (Inr \<lparr> status = 200, mimetype = ''text/event-stream'', content = EventStream g \<rparr>,
               \<lparr> calls = [generate_request (ollama a) model user_message (Some system_prompt)],
                 logs = logged g \<rparr>)))"

text \<open>The chunks a client of \<^verbatim>\<open>/api/chat\<close> receives, in order.\<close>

definition chunks :: "(exn + reply) \<times> io \<Rightarrow> sse list" where
  "chunks res =
     (case fst res of
        Inr r \<Rightarrow> (case content r of EventStream g \<Rightarrow> yielded g | JsonBody j \<Rightarrow> [])
      | Inl e \<Rightarrow> [])"

section \<open>chat_simple\<close>

definition simple_request :: "app \<Rightarrow> json \<Rightarrow> string \<Rightarrow> http_request" where
  "simple_request a model user_message =
     \<lparr> verb = ''POST'', url = OLLAMA_API_URL a @ ''/api/generate'',
       json_payload = Some (JObj [(''model'', model), (''prompt'', JStr user_message),
                                  (''stream'', JBool False)]),
       streamed = False, timeout_s = 300 \<rparr>"

text \<open>The two \<^verbatim>\<open>except\<close> clauses of \<^verbatim>\<open>chat_simple\<close> (lines 223 to 231).\<close>

definition simple_except :: "exn \<Rightarrow> io \<Rightarrow> (exn + reply) \<times> io" where
  "simple_except e s =
     (case e of
        ConnectionError m \<Rightarrow>
          (Inr (jsonify connection_failed 503), log_error (''Connection error: '' @ m) s)
      | Timeout m \<Rightarrow>
          (Inr (jsonify connection_failed 503), log_error (''Connection error: '' @ m) s)
      | RequestException m \<Rightarrow>
          (Inr (jsonify (JObj [(''error'', JStr m)]) 500), log_error (''Request error: '' @ m) s)
      | _ \<Rightarrow> (Inl e, s))"

definition chat_simple :: "app \<Rightarrow> upstream \<Rightarrow> json \<Rightarrow> (exn + reply) \<times> io" where
  "chat_simple a up data =
     (case validate data of
        Reject r \<Rightarrow> (Inr r, io0)
      | Fail e \<Rightarrow> (Inl e, io0)
      | Accept user_message model \<Rightarrow>
          (case send up (simple_request a model user_message) io0 of
             (Inl e, s) \<Rightarrow> simple_except e s
           | (Inr response, s) \<Rightarrow>
               (case raise_for_status response of
                  Inl e \<Rightarrow> simple_except e s
                | Inr u \<Rightarrow>
                    (case json_result response of
                       Inl e \<Rightarrow> simple_except e s
                     | Inr j \<Rightarrow> (Inr (jsonify j 200), s)))))"

section \<open>Flask's handling of what a view function raises\<close>

text \<open>
  \<^verbatim>\<open>internal_error\<close> (lines 240 to 244) is the handler Flask runs when an \<^verbatim>\<open>Exception\<close>
  leaves a view function (the server not being in debug mode). Its argument is Flask's
  \<^verbatim>\<open>InternalServerError\<close>, which wraps the exception; the handler logs that object's text.
\<close>

definition internal_server_error_text :: string where
  "internal_server_error_text =
     ''500 Internal Server Error: The server encountered an internal error and was unable '' @
     ''to complete your request. Either the server is overloaded or there is an error in '' @
     ''the application.''"

definition internal_error :: "exn \<Rightarrow> io \<Rightarrow> reply \<times> io" where
  "internal_error e s =
     (jsonify (JObj [(''error'', JStr ''Internal server error'')]) 500,
      log_error (''Internal server error: '' @ internal_server_error_text) s)"

definition dispatch :: "(exn + reply) \<times> io \<Rightarrow> (exn + reply) \<times> io" where
  "dispatch res =
     (case res of
        (Inr r, s) \<Rightarrow> (Inr r, s)
      | (Inl e, s) \<Rightarrow>
          (if is_Exception e then (case internal_error e s of (r, s') \<Rightarrow> (Inr r, s'))
           else (Inl e, s)))"

definition reply_status :: "(exn + reply) \<times> io \<Rightarrow> nat option" where
  "reply_status res = (case fst res of Inr r \<Rightarrow> Some (status r) | Inl e \<Rightarrow> None)"

definition reply_json :: "(exn + reply) \<times> io \<Rightarrow> json option" where
  "reply_json res =
     (case fst res of
        Inr r \<Rightarrow> (case content r of JsonBody j \<Rightarrow> Some j | EventStream g \<Rightarrow> None)
      | Inl e \<Rightarrow> None)"

section \<open>Health probe, model listing and the health endpoint\<close>

definition tags_request :: "OllamaClient \<Rightarrow> http_request" where
  "tags_request self =
     \<lparr> verb = ''GET'', url = base_url self @ ''/api/tags'', json_payload = None,
       streamed = False, timeout_s = 5 \<rparr>"

text \<open>\<^verbatim>\<open>check_health\<close> (lines 45 to 51).\<close>

definition check_health :: "OllamaClient \<Rightarrow> upstream \<Rightarrow> io \<Rightarrow> (exn + bool) \<times> io" where
  "check_health self up s =
     (case send up (tags_request self) s of
        (Inr response, s') \<Rightarrow> (Inr (status_code response = 200), s')
      | (Inl e, s') \<Rightarrow> (if is_RequestException e then Inr False else Inl e, s'))"

text \<open>\<^verbatim>\<open>list_models\<close> (lines 53 to 62); its result is whatever the body holds under \<^verbatim>\<open>models\<close>.\<close>

definition list_models_except :: "exn \<Rightarrow> io \<Rightarrow> (exn + json) \<times> io" where
  "list_models_except e s =
     (if is_RequestException e
      then (Inr (JArr []), log_error (''Error listing models: '' @ str_exn e) s)
      else (Inl e, s))"

definition list_models :: "OllamaClient \<Rightarrow> upstream \<Rightarrow> io \<Rightarrow> (exn + json) \<times> io" where
  "list_models self up s =
     (case send up (tags_request self) s of
        (Inl e, s') \<Rightarrow> list_models_except e s'
      | (Inr response, s') \<Rightarrow>
          (if status_code response = 200
           then (case json_result response of
                   Inl e \<Rightarrow> list_models_except e s'
                 | Inr v \<Rightarrow>
                     (case v of
                        JObj kvs \<Rightarrow> (Inr (dict_get kvs ''models'' (JArr [])), s')
                      | _ \<Rightarrow> list_models_except (no_attribute v ''get'') s'))
           else (Inr (JArr []), s')))"

text \<open>\<^verbatim>\<open>len(x)\<close> and the items of \<^verbatim>\<open>for m in x\<close>, on the values \<^verbatim>\<open>list_models\<close> can return.\<close>

definition py_len :: "json \<Rightarrow> exn + nat" where
  "py_len v =
     (case v of
        JStr s \<Rightarrow> Inr (length s)
      | JArr xs \<Rightarrow> Inr (length xs)
      | JObj kvs \<Rightarrow> Inr (length (remdups (map fst kvs)))
      | _ \<Rightarrow> Inl (TypeError (''object of type '' @ quoted (type_name v) @ '' has no len()'')))"

definition py_iter :: "json \<Rightarrow> exn + json list" where
  "py_iter v =
     (case v of
        JStr s \<Rightarrow> Inr (map (\<lambda>c. JStr [c]) s)
      | JArr xs \<Rightarrow> Inr xs
      | JObj kvs \<Rightarrow> Inr (map JStr (remdups (map fst kvs)))
      | _ \<Rightarrow> Inl (TypeError (quoted (type_name v) @ '' object is not iterable'')))"

text \<open>\<^verbatim>\<open>[m.get('name', 'unknown') for m in models]\<close>.\<close>

fun model_names :: "json list \<Rightarrow> exn + json list" where
  "model_names [] = Inr []"
| "model_names (m # ms) =
     (case m of
        JObj kvs \<Rightarrow>
          (case model_names ms of
             Inl e \<Rightarrow> Inl e
           | Inr ns \<Rightarrow> Inr (dict_get kvs ''name'' (JStr ''unknown'') # ns))
      | _ \<Rightarrow> Inl (no_attribute m ''get''))"

definition health_body :: "bool \<Rightarrow> nat \<Rightarrow> json list \<Rightarrow> json" where
  "health_body ollama_status n names =
     JObj [(''status'', JStr (if ollama_status then ''healthy'' else ''degraded'')),
           (''ollama_connected'', JBool ollama_status),
           (''models_available'', JInt (int n)),
           (''models'', JArr names)]"

text \<open>\<^verbatim>\<open>health_check\<close> (lines 111 to 122).\<close>

definition health_check :: "app \<Rightarrow> upstream \<Rightarrow> (exn + reply) \<times> io" where
  "health_check a up =
     (case check_health (ollama a) up io0 of
        (Inl e, s1) \<Rightarrow> (Inl e, s1)
      | (Inr ollama_status, s1) \<Rightarrow>
          (case (if ollama_status then list_models (ollama a) up s1 else (Inr (JArr []), s1)) of
             (Inl e, s2) \<Rightarrow> (Inl e, s2)
           | (Inr models, s2) \<Rightarrow>
               (case py_len models of
                  Inl e \<Rightarrow> (Inl e, s2)
                | Inr n \<Rightarrow>
                    (case py_iter models of
                       Inl e \<Rightarrow> (Inl e, s2)
                     | Inr items \<Rightarrow>
                         (case model_names items of
                            Inl e \<Rightarrow> (Inl e, s2)
                          | Inr names \<Rightarrow>
                              (Inr (jsonify (health_body ollama_status n names) 200), s2))))))"

section \<open>Vocabulary of the properties\<close>

text \<open>A response whose status \<^verbatim>\<open>raise_for_status()\<close> accepts, with the given body lines.\<close>

definition ok_response :: "line list \<Rightarrow> exn option \<Rightarrow> http_response" where
  "ok_response ls f =
     \<lparr> status_code = 200, status_error = [], json_result = Inl (RequestException []),
       body_lines = ls, body_failure = f \<rparr>"

text \<open>
  The lines the loop passes over: empty ones, and those whose text \<^verbatim>\<open>json.loads\<close> refuses
  with a \<open>JSONDecodeError\<close>. A line that is not UTF-8 is not among them: decoding it
  raises \<open>UnicodeDecodeError\<close>, which the loop does not catch.
\<close>

definition skipped :: "line \<Rightarrow> bool" where
  "skipped l = (case l of EmptyLine \<Rightarrow> True | BadLine (JSONDecodeError m) \<Rightarrow> True | _ \<Rightarrow> False)"

text \<open>The lines on which decoding raises an exception that the loop does not catch.\<close>

definition fatal :: "line \<Rightarrow> bool" where
  "fatal l = (case l of BadLine (JSONDecodeError m) \<Rightarrow> False | BadLine e \<Rightarrow> True | _ \<Rightarrow> False)"

text \<open>The values of the lines that hold valid JSON, in order.\<close>

definition json_values :: "line list \<Rightarrow> json list" where
  "json_values ls = List.map_filter (\<lambda>l. case l of JsonLine j \<Rightarrow> Some j | _ \<Rightarrow> None) ls"

text \<open>An event with a \<^verbatim>\<open>response\<close> field (a fragment).\<close>

definition is_fragment :: "json \<Rightarrow> bool" where
  "is_fragment ev = (case ev of JObj kvs \<Rightarrow> map_of kvs ''response'' \<noteq> None | _ \<Rightarrow> False)"

text \<open>
  The event \<^verbatim>\<open>generate_stream\<close> makes up itself when a requests exception ends its
  \<^verbatim>\<open>try\<close> body, and the exception that leaves it otherwise.
\<close>

definition failure_events :: "exn option \<Rightarrow> json list" where
  "failure_events f =
     (case f of
        Some (ConnectionError m) \<Rightarrow> [connection_failed]
      | Some (Timeout m) \<Rightarrow> [connection_failed]
      | Some (RequestException m) \<Rightarrow> [JObj [(''error'', JStr (''Request failed: '' @ m))]]
      | _ \<Rightarrow> [])"

definition escaping :: "exn option \<Rightarrow> exn option" where
  "escaping f =
     (case f of
        Some e \<Rightarrow> if is_RequestException e then None else Some e
      | None \<Rightarrow> None)"

text \<open>The chunk \<^verbatim>\<open>generate()\<close> yields in its \<^verbatim>\<open>except\<close> clause, given how its loop ended.\<close>

definition except_chunks :: "exn option \<Rightarrow> sse list" where
  "except_chunks f =
     (case f of
        Some e \<Rightarrow> if is_Exception e then [error_chunk (JStr (str_exn e))] else []
      | None \<Rightarrow> [])"

text \<open>How a client tells the outbound chunks apart: by the key of the object they carry.\<close>

definition is_response_chunk :: "sse \<Rightarrow> bool" where
  "is_response_chunk c =
     (case c of SseData (JObj kvs) \<Rightarrow> map_of kvs ''response'' \<noteq> None | _ \<Rightarrow> False)"

definition is_done_chunk :: "sse \<Rightarrow> bool" where
  "is_done_chunk c =
     (case c of SseData (JObj kvs) \<Rightarrow> map_of kvs ''done'' = Some (JBool True) | _ \<Rightarrow> False)"

definition is_error_chunk :: "sse \<Rightarrow> bool" where
  "is_error_chunk c =
     (case c of SseData (JObj kvs) \<Rightarrow> map_of kvs ''error'' \<noteq> None | _ \<Rightarrow> False)"

text \<open>
  The order of chunks the specification states for \<^verbatim>\<open>/chat\<close>: response chunks, then
  exactly one chunk that is a done chunk or an error chunk, then the sentinel.
\<close>

definition spec_chat_order :: "sse list \<Rightarrow> bool" where
  "spec_chat_order out =
     (case rev out of
        d # t # rs \<Rightarrow>
          d = SseDone \<and> (is_done_chunk t \<or> is_error_chunk t) \<and> list_all is_response_chunk rs
      | _ \<Rightarrow> False)"

text \<open>Events as the loop of \<^verbatim>\<open>generate()\<close> reads them.\<close>

definition has_error :: "json \<Rightarrow> bool" where
  "has_error ev = (case ev of JObj kvs \<Rightarrow> map_of kvs ''error'' \<noteq> None | _ \<Rightarrow> False)"

definition is_done :: "json \<Rightarrow> bool" where
  "is_done ev = (case ev of JObj kvs \<Rightarrow> truthy (dict_get kvs ''done'' (JBool False)) | _ \<Rightarrow> False)"

text \<open>A dict without an \<^verbatim>\<open>error\<close> key, and the chunks the loop yields for it.\<close>

definition plain_event :: "json \<Rightarrow> bool" where
  "plain_event ev = (case ev of JObj kvs \<Rightarrow> map_of kvs ''error'' = None | _ \<Rightarrow> False)"

definition event_chunks :: "json \<Rightarrow> sse list" where
  "event_chunks ev = (case ev of JObj kvs \<Rightarrow> relay_event kvs | _ \<Rightarrow> [])"

text \<open>
  The specification's reading of the decoder: an event with \<^verbatim>\<open>done\<close> true or with an
  \<^verbatim>\<open>error\<close> field is the last event of the decoded sequence.
\<close>

definition spec_terminal_last :: "json list \<Rightarrow> bool" where
  "spec_terminal_last evs = list_all (\<lambda>ev. \<not> (is_done ev \<or> has_error ev)) (butlast evs)"

text \<open>The exception that ends the loop over the lines, if any: that of the first fatal line,
  or else the one that ends the body.\<close>

fun loop_failure :: "line list \<Rightarrow> exn option \<Rightarrow> exn option" where
  "loop_failure [] f = f"
| "loop_failure (l # ls) f =
     (case l of
        BadLine e \<Rightarrow> (case e of JSONDecodeError m \<Rightarrow> loop_failure ls f | _ \<Rightarrow> Some e)
      | _ \<Rightarrow> loop_failure ls f)"

text \<open>An upstream that answers every call the same way.\<close>

definition always :: "exn + http_response \<Rightarrow> upstream" where
  "always out = (\<lambda>n rq. out)"

text \<open>
  The exception raised in the \<^verbatim>\<open>try\<close> body of \<^verbatim>\<open>chat_simple\<close>, if any: by the POST, by
  \<^verbatim>\<open>raise_for_status()\<close> or by \<^verbatim>\<open>response.json()\<close>.
\<close>

definition simple_failure :: "exn + http_response \<Rightarrow> exn option" where
  "simple_failure out =
     (case out of
        Inl e \<Rightarrow> Some e
      | Inr r \<Rightarrow>
          (case raise_for_status r of
             Inl e \<Rightarrow> Some e
           | Inr u \<Rightarrow> (case json_result r of Inl e \<Rightarrow> Some e | Inr j \<Rightarrow> None)))"

text \<open>
  Upstream answers to the two calls of \<^verbatim>\<open>health_check\<close> that its code provides for: a
  probe that returns, or fails with a requests exception; a listing that fails with a
  requests exception, has a status other than 200, or holds an object whose \<^verbatim>\<open>models\<close> is
  absent or a list of objects (the shape the daemon documents).
\<close>

definition is_object :: "json \<Rightarrow> bool" where
  "is_object v = (case v of JObj kvs \<Rightarrow> True | _ \<Rightarrow> False)"

definition probe_ok :: "exn + http_response \<Rightarrow> bool" where
  "probe_ok out = (case out of Inl e \<Rightarrow> is_RequestException e | Inr r \<Rightarrow> True)"

definition listing_ok :: "exn + http_response \<Rightarrow> bool" where
  "listing_ok out =
     (case out of
        Inl e \<Rightarrow> is_RequestException e
      | Inr r \<Rightarrow>
          (if status_code r = 200
           then (case json_result r of
                   Inl e \<Rightarrow> is_RequestException e
                 | Inr v \<Rightarrow>
                     (case v of
                        JObj kvs \<Rightarrow>
                          (case dict_get kvs ''models'' (JArr []) of
                             JArr ms \<Rightarrow> list_all is_object ms
                           | _ \<Rightarrow> False)
                      | _ \<Rightarrow> False))
           else True))"

text \<open>
  A line that is not valid JSON, as the specification reads it: text that \<^verbatim>\<open>json.loads\<close>
  refuses, or bytes that are not UTF-8 text at all. A sequence the specification speaks
  of holds blank lines, JSON lines and such lines only.
\<close>

definition not_valid_json :: "line \<Rightarrow> bool" where
  "not_valid_json l =
     (case l of
        BadLine (JSONDecodeError m) \<Rightarrow> True
      | BadLine (UnicodeDecodeError m) \<Rightarrow> True
      | _ \<Rightarrow> False)"

definition spec_line :: "line \<Rightarrow> bool" where
  "spec_line l = (case l of BadLine e \<Rightarrow> not_valid_json l | _ \<Rightarrow> True)"

text \<open>
  The specification's reading of the decoder on such a sequence: every line that is not
  valid JSON is passed over, so the value of every JSON line is yielded and nothing is
  raised.
\<close>

definition spec_decoder_skips :: "line list \<Rightarrow> json gen \<Rightarrow> bool" where
  "spec_decoder_skips ls g = (yielded g = json_values ls \<and> raised g = None)"

text \<open>The log lines of the lines that \<^verbatim>\<open>json.loads\<close> refuses, in order.\<close>

fun decode_logs :: "line list \<Rightarrow> string list" where
  "decode_logs [] = []"
| "decode_logs (BadLine (JSONDecodeError m) # ls) = (''JSON decode error: '' @ m) # decode_logs ls"
| "decode_logs (l # ls) = decode_logs ls"

text \<open>The line \<^verbatim>\<open>generate_stream\<close> logs when a requests exception ends its \<^verbatim>\<open>try\<close> body.\<close>

definition failure_logs :: "exn option \<Rightarrow> string list" where
  "failure_logs f =
     (case f of
        Some (ConnectionError m) \<Rightarrow> [''Connection error: '' @ m]
      | Some (Timeout m) \<Rightarrow> [''Connection error: '' @ m]
      | Some (RequestException m) \<Rightarrow> [''Request error: '' @ m]
      | _ \<Rightarrow> [])"

text \<open>The values of the \<^verbatim>\<open>response\<close> fields of the events that have one, in order.\<close>

definition fragment_texts :: "json list \<Rightarrow> json list" where
  "fragment_texts evs =
     List.map_filter (\<lambda>ev. case ev of JObj kvs \<Rightarrow> map_of kvs ''response'' | _ \<Rightarrow> None) evs"

definition fields_of :: "json \<Rightarrow> (string \<times> json) list" where
  "fields_of ev = (case ev of JObj kvs \<Rightarrow> kvs | _ \<Rightarrow> [])"

text \<open>
  What the loop of \<^verbatim>\<open>generate()\<close> and its \<^verbatim>\<open>except\<close> clause yield last, given the events
  from the first one that is not a dict without an \<^verbatim>\<open>error\<close> key onwards, and the way the
  upstream generator ends: the error chunk of that event, the error chunk of the
  exception it makes the loop raise, or the chunk of the exception that ended the
  generator.
\<close>

definition stop_chunks :: "json list \<Rightarrow> exn option \<Rightarrow> sse list" where
  "stop_chunks rest f =
     (case rest of
        [] \<Rightarrow> except_chunks f
      | ev # evs \<Rightarrow>
          (case ev of
             JObj kvs \<Rightarrow> (case map_of kvs ''error'' of Some v \<Rightarrow> [error_chunk v] | None \<Rightarrow> [])
           | _ \<Rightarrow> except_chunks (Some (not_a_dict ev))))"











section \<open>Properties of the stream decoder\<close>

lemma yielded_stream_except:
  "yielded (stream_except g) = yielded g @ failure_events (raised g)"
  by (induction g rule: stream_except.induct) (auto simp: failure_events_def split: exn.splits)

lemma raised_stream_except:
  "raised (stream_except g) = escaping (raised g)"
  by (induction g rule: stream_except.induct) (auto simp: escaping_def split: exn.splits)

lemma stream_body_ok:
  "stream_body (Inr (ok_response ls f)) = iter_lines_loop ls f"
  by (simp add: stream_body_def ok_response_def raise_for_status_def)

lemma yielded_iter_lines_skip:
  "yielded (iter_lines_loop (filter (\<lambda>l. \<not> skipped l) ls) f) = yielded (iter_lines_loop ls f)"
proof (induction ls f rule: iter_lines_loop.induct)
  case (5 e ls f)
  then show ?case by (cases e) (simp_all add: skipped_def)
qed (simp_all add: skipped_def)

lemma raised_iter_lines_skip:
  "raised (iter_lines_loop (filter (\<lambda>l. \<not> skipped l) ls) f) = raised (iter_lines_loop ls f)"
proof (induction ls f rule: iter_lines_loop.induct)
  case (5 e ls f)
  then show ?case by (cases e) (simp_all add: skipped_def)
qed (simp_all add: skipped_def)

lemma yielded_iter_lines_all:
  "list_all (\<lambda>l. \<not> fatal l) ls \<Longrightarrow> yielded (iter_lines_loop ls f) = json_values ls"
proof (induction ls f rule: iter_lines_loop.induct)
  case (5 e ls f)
  then show ?case by (cases e) (simp_all add: fatal_def json_values_def)
qed (simp_all add: fatal_def json_values_def)

lemma raised_iter_lines_all:
  "list_all (\<lambda>l. \<not> fatal l) ls \<Longrightarrow> raised (iter_lines_loop ls f) = f"
proof (induction ls f rule: iter_lines_loop.induct)
  case (5 e ls f)
  then show ?case by (cases e) (simp_all add: fatal_def)
qed (simp_all add: fatal_def)


lemma generate_stream_ok_response:
  "generate_stream self (\<lambda>n rq. Inr (ok_response ls f)) model prompt sp =
   stream_except (iter_lines_loop ls f)"
  by (simp add: generate_stream_def stream_body_ok)

lemma yielded_iter_lines_loop:
  "yielded (iter_lines_loop ls f) = json_values (takeWhile (\<lambda>l. \<not> fatal l) ls)"
proof (induction ls f rule: iter_lines_loop.induct)
  case (5 e ls f)
  then show ?case by (cases e) (simp_all add: fatal_def json_values_def)
qed (simp_all add: fatal_def json_values_def)

lemma raised_iter_lines_loop:
  "raised (iter_lines_loop ls f) = loop_failure ls f"
proof (induction ls f rule: iter_lines_loop.induct)
  case (5 e ls f)
  then show ?case by (cases e) simp_all
qed simp_all

lemma always_ok:
  "always (Inr (ok_response ls f)) 0 rq = Inr (ok_response ls f)"
  "raise_for_status (ok_response ls f) = Inr ()"
  "body_failure (ok_response ls f) = f"
  "body_lines (ok_response ls f) = ls"
  by (simp_all add: always_def ok_response_def raise_for_status_def)

lemma logged_stream_except:
  "logged (stream_except g) = logged g @ failure_logs (raised g)"
  by (induction g rule: stream_except.induct) (auto simp: failure_logs_def split: exn.splits)

lemma logged_iter_lines_loop:
  "logged (iter_lines_loop ls f) = decode_logs (takeWhile (\<lambda>l. \<not> fatal l) ls)"
proof (induction ls f rule: iter_lines_loop.induct)
  case (5 e ls f)
  then show ?case by (cases e) (simp_all add: fatal_def)
qed (simp_all add: fatal_def)

lemma loop_failure_append_fatal:
  "list_all (\<lambda>l. \<not> fatal l) pre \<Longrightarrow>
   loop_failure (pre @ BadLine (UnicodeDecodeError m) # post) f = Some (UnicodeDecodeError m)"
proof (induction pre)
  case Nil
  then show ?case by simp
next
  case (Cons l pre)
  then show ?case by (cases l) (auto simp: fatal_def split: exn.splits)
qed

lemma takeWhile_append_fatal:
  "list_all (\<lambda>l. \<not> fatal l) pre \<Longrightarrow>
   takeWhile (\<lambda>l. \<not> fatal l) (pre @ BadLine (UnicodeDecodeError m) # post) = pre"
  by (induction pre) (simp_all add: fatal_def)

lemma takeWhile_no_fatal:
  "list_all (\<lambda>l. \<not> fatal l) ls \<Longrightarrow> takeWhile (\<lambda>l. \<not> fatal l) ls = ls"
  by (induction ls) simp_all

lemma loop_failure_no_fatal:
  "list_all (\<lambda>l. \<not> fatal l) ls \<Longrightarrow> loop_failure ls f = f"
proof (induction ls)
  case Nil
  then show ?case by simp
next
  case (Cons l ls)
  then show ?case by (cases l) (auto simp: fatal_def split: exn.splits)
qed

lemma takeWhile_at_fatal:
  "list_all (\<lambda>l. \<not> fatal l) pre \<Longrightarrow> fatal l \<Longrightarrow>
   takeWhile (\<lambda>l. \<not> fatal l) (pre @ l # post) = pre"
  by (induction pre) simp_all

lemma loop_failure_at_fatal:
  "list_all (\<lambda>l. \<not> fatal l) pre \<Longrightarrow> fatal (BadLine x) \<Longrightarrow>
   loop_failure (pre @ BadLine x # post) f = Some x"
proof (induction pre)
  case Nil
  then show ?case by (cases x) (simp_all add: fatal_def)
next
  case (Cons l pre)
  then show ?case by (cases l) (auto simp: fatal_def split: exn.splits)
qed

text \<open>
  Claim C6, as amended. For every upstream line sequence the stream decoder passes over
  blank lines and lines on which \<^verbatim>\<open>json.loads\<close> raises a \<^verbatim>\<open>JSONDecodeError\<close>: it logs one
  line \<^verbatim>\<open>JSON decode error: ...\<close> for each such malformed line, in order, and neither
  raises nor stops, so the events it yields and the way it ends are those of the
  sequence with these lines taken out. The tolerance ends at the first line on which
  decoding raises another exception: a line whose bytes are not UTF-8 is not valid JSON
  either, but \<^verbatim>\<open>line.decode\<close> raises a \<^verbatim>\<open>UnicodeDecodeError\<close> on it, which the loop does
  not catch; the events of the lines before it are yielded, nothing of the lines after
  it is, and the exception leaves the generator. For one malformed line between two
  lines that carry a \<^verbatim>\<open>response\<close> field, the decoder yields exactly the two fragments and
  logs one decode failure.
\<close>

theorem decoder_skips_blank_and_malformed_lines:
  "yielded (generate_stream self (\<lambda>n rq. Inr (ok_response ls f)) model prompt sp) =
     json_values (takeWhile (\<lambda>l. \<not> fatal l) ls) @ failure_events (loop_failure ls f) \<and>
   logged (generate_stream self (\<lambda>n rq. Inr (ok_response ls f)) model prompt sp) =
     decode_logs (takeWhile (\<lambda>l. \<not> fatal l) ls) @ failure_logs (loop_failure ls f) \<and>
   raised (generate_stream self (\<lambda>n rq. Inr (ok_response ls f)) model prompt sp) =
     escaping (loop_failure ls f) \<and>
   yielded (generate_stream self (\<lambda>n rq. Inr (ok_response ls f)) model prompt sp) =
     yielded (generate_stream self
       (\<lambda>n rq. Inr (ok_response (filter (\<lambda>l. \<not> skipped l) ls) f)) model prompt sp) \<and>
   raised (generate_stream self (\<lambda>n rq. Inr (ok_response ls f)) model prompt sp) =
     raised (generate_stream self
       (\<lambda>n rq. Inr (ok_response (filter (\<lambda>l. \<not> skipped l) ls) f)) model prompt sp) \<and>
   (list_all (\<lambda>l. \<not> fatal l) ls \<longrightarrow>
      yielded (generate_stream self (\<lambda>n rq. Inr (ok_response ls None)) model prompt sp) =
        json_values ls \<and>
      logged (generate_stream self (\<lambda>n rq. Inr (ok_response ls None)) model prompt sp) =
        decode_logs ls \<and>
      raised (generate_stream self (\<lambda>n rq. Inr (ok_response ls None)) model prompt sp) = None) \<and>
   (list_all (\<lambda>l. \<not> fatal l) pre \<longrightarrow>
      yielded (generate_stream self
        (\<lambda>n rq. Inr (ok_response (pre @ BadLine (UnicodeDecodeError m) # post) f))
        model prompt sp) = json_values pre \<and>
      raised (generate_stream self
        (\<lambda>n rq. Inr (ok_response (pre @ BadLine (UnicodeDecodeError m) # post) f))
        model prompt sp) = Some (UnicodeDecodeError m)) \<and>
   (let run = generate_stream self
        (\<lambda>n rq. Inr (ok_response
           [JsonLine (JObj [(''response'', a)]), BadLine (JSONDecodeError m),
            JsonLine (JObj [(''response'', b)])] None)) model prompt sp
    in yielded run = [JObj [(''response'', a)], JObj [(''response'', b)]] \<and>
       list_all is_fragment (yielded run) \<and>
       logged run = [''JSON decode error: '' @ m] \<and>
       raised run = None)"
proof -
  note gs = generate_stream_ok_response
  have p1: "yielded (generate_stream self (\<lambda>n rq. Inr (ok_response ls f)) model prompt sp) =
     json_values (takeWhile (\<lambda>l. \<not> fatal l) ls) @ failure_events (loop_failure ls f)"
    by (simp only: gs yielded_stream_except yielded_iter_lines_loop raised_iter_lines_loop)
  have p2: "logged (generate_stream self (\<lambda>n rq. Inr (ok_response ls f)) model prompt sp) =
     decode_logs (takeWhile (\<lambda>l. \<not> fatal l) ls) @ failure_logs (loop_failure ls f)"
    by (simp only: gs logged_stream_except logged_iter_lines_loop raised_iter_lines_loop)
  have p3: "raised (generate_stream self (\<lambda>n rq. Inr (ok_response ls f)) model prompt sp) =
     escaping (loop_failure ls f)"
    by (simp only: gs raised_stream_except raised_iter_lines_loop)
  have p4: "yielded (generate_stream self (\<lambda>n rq. Inr (ok_response ls f)) model prompt sp) =
     yielded (generate_stream self
       (\<lambda>n rq. Inr (ok_response (filter (\<lambda>l. \<not> skipped l) ls) f)) model prompt sp)"
    by (simp only: gs yielded_stream_except yielded_iter_lines_skip raised_iter_lines_skip)
  have p5: "raised (generate_stream self (\<lambda>n rq. Inr (ok_response ls f)) model prompt sp) =
     raised (generate_stream self
       (\<lambda>n rq. Inr (ok_response (filter (\<lambda>l. \<not> skipped l) ls) f)) model prompt sp)"
    by (simp only: gs raised_stream_except raised_iter_lines_skip)
  have p6: "list_all (\<lambda>l. \<not> fatal l) ls \<longrightarrow>
      yielded (generate_stream self (\<lambda>n rq. Inr (ok_response ls None)) model prompt sp) =
        json_values ls \<and>
      logged (generate_stream self (\<lambda>n rq. Inr (ok_response ls None)) model prompt sp) =
        decode_logs ls \<and>
      raised (generate_stream self (\<lambda>n rq. Inr (ok_response ls None)) model prompt sp) = None"
    by (simp add: gs yielded_stream_except logged_stream_except raised_stream_except
        yielded_iter_lines_loop logged_iter_lines_loop raised_iter_lines_loop
        takeWhile_no_fatal loop_failure_no_fatal failure_events_def failure_logs_def escaping_def)
  have p7: "list_all (\<lambda>l. \<not> fatal l) pre \<longrightarrow>
      yielded (generate_stream self
        (\<lambda>n rq. Inr (ok_response (pre @ BadLine (UnicodeDecodeError m) # post) f))
        model prompt sp) = json_values pre \<and>
      raised (generate_stream self
        (\<lambda>n rq. Inr (ok_response (pre @ BadLine (UnicodeDecodeError m) # post) f))
        model prompt sp) = Some (UnicodeDecodeError m)"
    by (simp add: gs yielded_stream_except raised_stream_except
        yielded_iter_lines_loop raised_iter_lines_loop
        takeWhile_append_fatal loop_failure_append_fatal failure_events_def escaping_def)
  have p8: "let run = generate_stream self
        (\<lambda>n rq. Inr (ok_response
           [JsonLine (JObj [(''response'', a)]), BadLine (JSONDecodeError m),
            JsonLine (JObj [(''response'', b)])] None)) model prompt sp
    in yielded run = [JObj [(''response'', a)], JObj [(''response'', b)]] \<and>
       list_all is_fragment (yielded run) \<and>
       logged run = [''JSON decode error: '' @ m] \<and>
       raised run = None"
    by (simp add: gs is_fragment_def)
  show ?thesis
    by (rule conjI [OF p1 conjI [OF p2 conjI [OF p3 conjI [OF p4 conjI [OF p5 conjI [OF p6
        conjI [OF p7 p8]]]]]]])
qed

theorem decoder_skips_blank_and_malformed_lines_witness:
  "list_all (\<lambda>l. \<not> fatal l)
     [JsonLine (JObj [(''response'', JStr ''Hel'')]), BadLine (JSONDecodeError ''Expecting value''),
      EmptyLine, JsonLine (JObj [(''response'', JStr ''lo'')])] \<and>
   yielded (generate_stream \<lparr> base_url = ''http://localhost:11434'' \<rparr>
     (\<lambda>n rq. Inr (ok_response
        [JsonLine (JObj [(''response'', JStr ''Hel'')]), BadLine (JSONDecodeError ''Expecting value''),
         EmptyLine, JsonLine (JObj [(''response'', JStr ''lo'')])] None))
     (JStr ''codellama'') ''hi'' None) =
     [JObj [(''response'', JStr ''Hel'')], JObj [(''response'', JStr ''lo'')]] \<and>
   logged (generate_stream \<lparr> base_url = ''http://localhost:11434'' \<rparr>
     (\<lambda>n rq. Inr (ok_response
        [JsonLine (JObj [(''response'', JStr ''Hel'')]), BadLine (JSONDecodeError ''Expecting value''),
         EmptyLine, JsonLine (JObj [(''response'', JStr ''lo'')])] None))
     (JStr ''codellama'') ''hi'' None) = [''JSON decode error: Expecting value''] \<and>
   raised (generate_stream \<lparr> base_url = ''http://localhost:11434'' \<rparr>
     (\<lambda>n rq. Inr (ok_response
        [JsonLine (JObj [(''response'', JStr ''Hel'')]), BadLine (JSONDecodeError ''Expecting value''),
         EmptyLine, JsonLine (JObj [(''response'', JStr ''lo'')])] None))
     (JStr ''codellama'') ''hi'' None) = None \<and>
   list_all (\<lambda>l. \<not> fatal l) [JsonLine (JObj [(''response'', JStr ''Hel'')])] \<and>
   yielded (generate_stream \<lparr> base_url = ''http://localhost:11434'' \<rparr>
     (\<lambda>n rq. Inr (ok_response
        ([JsonLine (JObj [(''response'', JStr ''Hel'')])] @
         BadLine (UnicodeDecodeError ''invalid start byte'') #
         [JsonLine (JObj [(''response'', JStr ''lo'')])]) None))
     (JStr ''codellama'') ''hi'' None) = [JObj [(''response'', JStr ''Hel'')]] \<and>
   raised (generate_stream \<lparr> base_url = ''http://localhost:11434'' \<rparr>
     (\<lambda>n rq. Inr (ok_response
        ([JsonLine (JObj [(''response'', JStr ''Hel'')])] @
         BadLine (UnicodeDecodeError ''invalid start byte'') #
         [JsonLine (JObj [(''response'', JStr ''lo'')])]) None))
     (JStr ''codellama'') ''hi'' None) = Some (UnicodeDecodeError ''invalid start byte'')"
proof -
  let ?ls = "[JsonLine (JObj [(''response'', JStr ''Hel'')]),
              BadLine (JSONDecodeError ''Expecting value''),
              EmptyLine, JsonLine (JObj [(''response'', JStr ''lo'')])]"
  let ?self = "\<lparr> base_url = ''http://localhost:11434'' \<rparr>"
  let ?pre = "[JsonLine (JObj [(''response'', JStr ''Hel'')])]"
  let ?post = "[JsonLine (JObj [(''response'', JStr ''lo'')])]"
  have ok: "list_all (\<lambda>l. \<not> fatal l) ?ls"
    by (simp add: fatal_def)
  have vals: "json_values ?ls =
     [JObj [(''response'', JStr ''Hel'')], JObj [(''response'', JStr ''lo'')]]"
    by (simp add: json_values_def)
  have lg: "decode_logs ?ls = [''JSON decode error: Expecting value'']"
    by simp
  note inst = decoder_skips_blank_and_malformed_lines [where self = ?self and ls = ?ls and f = None and model = "JStr ''codellama''"
      and prompt = "''hi''" and sp = None and pre = ?pre
      and m = "''invalid start byte''" and post = ?post]
  note six = conjunct1 [OF conjunct2 [OF conjunct2 [OF conjunct2 [OF conjunct2 [OF conjunct2
        [OF inst]]]]]]
  note seven = conjunct1 [OF conjunct2 [OF conjunct2 [OF conjunct2 [OF conjunct2 [OF conjunct2
        [OF conjunct2 [OF inst]]]]]]]
  have a: "yielded (generate_stream ?self (\<lambda>n rq. Inr (ok_response ?ls None))
        (JStr ''codellama'') ''hi'' None) =
        [JObj [(''response'', JStr ''Hel'')], JObj [(''response'', JStr ''lo'')]] \<and>
      logged (generate_stream ?self (\<lambda>n rq. Inr (ok_response ?ls None))
        (JStr ''codellama'') ''hi'' None) = [''JSON decode error: Expecting value''] \<and>
      raised (generate_stream ?self (\<lambda>n rq. Inr (ok_response ?ls None))
        (JStr ''codellama'') ''hi'' None) = None"
    using mp [OF six ok] by (simp only: vals lg)
  have okp: "list_all (\<lambda>l. \<not> fatal l) ?pre"
    by (simp add: fatal_def)
  have valp: "json_values ?pre = [JObj [(''response'', JStr ''Hel'')]]"
    by (simp add: json_values_def)
  have b: "yielded (generate_stream ?self
        (\<lambda>n rq. Inr (ok_response
           (?pre @ BadLine (UnicodeDecodeError ''invalid start byte'') # ?post) None))
        (JStr ''codellama'') ''hi'' None) = [JObj [(''response'', JStr ''Hel'')]] \<and>
      raised (generate_stream ?self
        (\<lambda>n rq. Inr (ok_response
           (?pre @ BadLine (UnicodeDecodeError ''invalid start byte'') # ?post) None))
        (JStr ''codellama'') ''hi'' None) = Some (UnicodeDecodeError ''invalid start byte'')"
    using mp [OF seven okp] by (simp only: valp)
  show ?thesis
    using ok a okp b by blast
qed

text \<open>
  Claim C6 as stated fails: for a body of three lines, the second of which is not UTF-8
  (and so is not valid JSON), the decoder yields the first fragment only and raises the
  \<^verbatim>\<open>UnicodeDecodeError\<close>; the second line is not skipped and the third is never decoded.
\<close>

theorem decoder_stops_at_undecodable_line:
  "list_all spec_line
     [JsonLine (JObj [(''response'', JStr ''Hel'')]), BadLine (UnicodeDecodeError ''invalid start byte''),
      JsonLine (JObj [(''response'', JStr ''lo'')])] \<and>
   \<not> spec_decoder_skips
     [JsonLine (JObj [(''response'', JStr ''Hel'')]), BadLine (UnicodeDecodeError ''invalid start byte''),
      JsonLine (JObj [(''response'', JStr ''lo'')])]
     (generate_stream (ollama module_init)
        (always (Inr (ok_response
           [JsonLine (JObj [(''response'', JStr ''Hel'')]),
            BadLine (UnicodeDecodeError ''invalid start byte''),
            JsonLine (JObj [(''response'', JStr ''lo'')])] None)))
        (JStr ''codellama'') ''hi'' (Some system_prompt)) \<and>
   yielded (generate_stream (ollama module_init)
        (always (Inr (ok_response
           [JsonLine (JObj [(''response'', JStr ''Hel'')]),
            BadLine (UnicodeDecodeError ''invalid start byte''),
            JsonLine (JObj [(''response'', JStr ''lo'')])] None)))
        (JStr ''codellama'') ''hi'' (Some system_prompt)) = [JObj [(''response'', JStr ''Hel'')]] \<and>
   raised (generate_stream (ollama module_init)
        (always (Inr (ok_response
           [JsonLine (JObj [(''response'', JStr ''Hel'')]),
            BadLine (UnicodeDecodeError ''invalid start byte''),
            JsonLine (JObj [(''response'', JStr ''lo'')])] None)))
        (JStr ''codellama'') ''hi'' (Some system_prompt)) =
     Some (UnicodeDecodeError ''invalid start byte'')"
  by (simp add: generate_stream_def always_ok stream_body_def spec_line_def not_valid_json_def
      spec_decoder_skips_def json_values_def)


section \<open>Properties of the relay\<close>

lemma yielded_yield_all: "yielded (yield_all xs g) = xs @ yielded g"
  by (induction xs) simp_all

lemma raised_yield_all: "raised (yield_all xs g) = raised g"
  by (induction xs) simp_all

lemma logged_yield_all: "logged (yield_all xs g) = logged g"
  by (induction xs) simp_all

lemma yielded_relay_except:
  "yielded (relay_except g) = yielded g @ except_chunks (raised g)"
  by (induction g rule: relay_except.induct) (simp_all add: except_chunks_def)

lemma raised_relay_except:
  "raised (relay_except g) =
     (case raised g of Some e \<Rightarrow> if is_Exception e then None else Some e | None \<Rightarrow> None)"
  by (induction g rule: relay_except.induct) simp_all

lemma yielded_relay_finally: "yielded (relay_finally g) = yielded g @ [SseDone]"
  by (induction g rule: relay_finally.induct) simp_all

lemma raised_relay_finally: "raised (relay_finally g) = raised g"
  by (induction g rule: relay_finally.induct) simp_all

lemma yielded_generate:
  "yielded (generate events) =
     yielded (relay events) @ except_chunks (raised (relay events)) @ [SseDone]"
  by (simp add: generate_def yielded_relay_finally yielded_relay_except)

lemma relay_event_no_sentinel: "SseDone \<notin> set (relay_event kvs)"
  by (simp add: relay_event_def response_chunk_def done_chunk_def split: option.splits)

lemma relay_no_sentinel: "SseDone \<notin> set (yielded (relay g))"
proof (induction g rule: relay.induct)
  case (4 chunk g)
  then show ?case
    by (cases chunk)
       (auto simp: yielded_yield_all relay_event_no_sentinel error_chunk_def split: option.splits)
qed simp_all

lemma except_chunks_no_sentinel: "SseDone \<notin> set (except_chunks f)"
  by (simp add: except_chunks_def error_chunk_def split: option.splits)

lemma count_sentinel_zero: "SseDone \<notin> set xs \<Longrightarrow> count_list xs SseDone = 0"
  by (induction xs) auto

lemma generate_one_sentinel:
  "count_list (yielded (generate events)) SseDone = 1"
  by (simp add: yielded_generate count_sentinel_zero relay_no_sentinel except_chunks_no_sentinel)

lemma generate_last_sentinel:
  "last (yielded (generate events)) = SseDone"
  by (simp add: yielded_generate)


lemma relay_event_payload: "c \<in> set (relay_event kvs) \<Longrightarrow> \<exists>kv. c = SseData (JObj kv)"
  by (auto simp: relay_event_def response_chunk_def done_chunk_def split: option.splits if_splits)

lemma relay_payload: "c \<in> set (yielded (relay g)) \<Longrightarrow> \<exists>kv. c = SseData (JObj kv)"
proof (induction g rule: relay.induct)
  case (4 chunk g)
  then show ?case
    by (cases chunk)
       (auto simp: yielded_yield_all error_chunk_def dest: relay_event_payload split: option.splits)
qed simp_all

lemma except_chunks_payload: "c \<in> set (except_chunks f) \<Longrightarrow> \<exists>kv. c = SseData (JObj kv)"
  by (auto simp: except_chunks_def error_chunk_def split: option.splits if_splits)

lemma payload_objects:
  "c \<in> set (yielded (generate events)) \<Longrightarrow> c = SseDone \<or> (\<exists>kv. c = SseData (JObj kv))"
  by (auto simp: yielded_generate dest: relay_payload except_chunks_payload)

lemma count_text_sentinel:
  assumes "\<forall>kv. dumps (JObj kv) \<noteq> ''[DONE]''"
    and "\<forall>c \<in> set xs. c = SseDone \<or> (\<exists>kv. c = SseData (JObj kv))"
  shows "count_list (map (sse_text dumps) xs) (''data: [DONE]'' @ [CHR 0x0A, CHR 0x0A]) =
         count_list xs SseDone"
  using assms(2)
proof (induction xs)
  case Nil
  then show ?case by simp
next
  case (Cons c xs)
  then have "c = SseDone \<or> (\<exists>kv. c = SseData (JObj kv))" by simp
  then show ?case
  proof
    assume "c = SseDone"
    with Cons show ?thesis by (simp add: sse_text_def)
  next
    assume "\<exists>kv. c = SseData (JObj kv)"
    then obtain kv where "c = SseData (JObj kv)" by blast
    with Cons assms(1) show ?thesis by (simp add: sse_text_def)
  qed
qed

lemma chunks_chat:
  "validate data = Accept user_message model \<Longrightarrow>
   chunks (chat a up data) =
     yielded (generate (generate_stream (ollama a) up model user_message (Some system_prompt)))"
  by (simp add: chat_def chunks_def Let_def)

lemma validate_eval: "validate (JObj [(''message'', JStr ''  hi '')]) = Accept ''hi'' (JStr ''codellama'')"
  by (simp add: validate_def dict_get_def strip_def py_isspace_def DEFAULT_MODEL_def)

lemma chat_eval:
  "chunks (chat module_init (\<lambda>n rq. Inl (ConnectionError ''refused'')) (JObj [(''message'', JStr ''  hi '')]))
   = [error_chunk (JStr ''Connection to Ollama failed. Is Ollama running?''), SseDone]"
  by (simp add: chat_def validate_eval chunks_def generate_def generate_stream_def stream_body_def
      connection_failed_def)

lemma text_sentinel:
  "(sse_text dumps (SseData obj) = ''data: [DONE]'' @ [CHR 0x0A, CHR 0x0A]) = (dumps obj = ''[DONE]'')"
  by (simp add: sse_text_def)


text \<open>
  Claim C1. Every \<^verbatim>\<open>/chat\<close> session that enters streaming writes exactly one closing
  sentinel chunk \<^verbatim>\<open>data: [DONE]\n\n\<close>, and it is the last chunk written, however the
  iteration over the upstream events ends: for every run \<open>events\<close> of the upstream
  generator (it returns, it yields an error event, or any exception leaves it), the
  chunks of \<^verbatim>\<open>generate()\<close> hold the sentinel once, at the end; as text too, for any
  serialiser that never renders a dict as \<^verbatim>\<open>[DONE]\<close>. A request that passes validation
  gets this generator as its reply.
\<close>

theorem chat_stream_closes_with_one_sentinel:
  "count_list (yielded (generate events)) SseDone = 1 \<and>
   last (yielded (generate events)) = SseDone \<and>
   sse_text dumps (last (yielded (generate events))) = ''data: [DONE]'' @ [CHR 0x0A, CHR 0x0A] \<and>
   ((\<forall>obj. dumps (JObj obj) \<noteq> ''[DONE]'') \<longrightarrow>
      count_list (map (sse_text dumps) (yielded (generate events)))
        (''data: [DONE]'' @ [CHR 0x0A, CHR 0x0A]) = 1) \<and>
   (validate data = Accept user_message model \<longrightarrow>
      fst (chat a up data) =
        Inr \<lparr> status = 200, mimetype = ''text/event-stream'',
              content = EventStream (generate
                (generate_stream (ollama a) up model user_message (Some system_prompt))) \<rparr> \<and>
      count_list (chunks (chat a up data)) SseDone = 1 \<and>
      last (chunks (chat a up data)) = SseDone)"
proof -
  have one: "\<And>ev. count_list (yielded (generate ev)) SseDone = 1"
    by (rule generate_one_sentinel)
  have lst: "\<And>ev. last (yielded (generate ev)) = SseDone"
    by (rule generate_last_sentinel)
  have stxt: "sse_text dumps (last (yielded (generate events))) =
      ''data: [DONE]'' @ [CHR 0x0A, CHR 0x0A]"
    by (simp add: lst sse_text_def)
  have cnt: "(\<forall>obj. dumps (JObj obj) \<noteq> ''[DONE]'') \<longrightarrow>
      count_list (map (sse_text dumps) (yielded (generate events)))
        (''data: [DONE]'' @ [CHR 0x0A, CHR 0x0A]) = 1"
  proof
    assume d: "\<forall>obj. dumps (JObj obj) \<noteq> ''[DONE]''"
    have "\<forall>c \<in> set (yielded (generate events)). c = SseDone \<or> (\<exists>kv. c = SseData (JObj kv))"
      using payload_objects by blast
    from count_text_sentinel [OF d this] show
      "count_list (map (sse_text dumps) (yielded (generate events)))
        (''data: [DONE]'' @ [CHR 0x0A, CHR 0x0A]) = 1"
      by (simp only: one)
  qed
  have cht: "validate data = Accept user_message model \<longrightarrow>
      fst (chat a up data) =
        Inr \<lparr> status = 200, mimetype = ''text/event-stream'',
              content = EventStream (generate
                (generate_stream (ollama a) up model user_message (Some system_prompt))) \<rparr> \<and>
      count_list (chunks (chat a up data)) SseDone = 1 \<and>
      last (chunks (chat a up data)) = SseDone"
    by (simp add: chat_def chunks_def Let_def one lst)
  show ?thesis
    by (rule conjI [OF one conjI [OF lst conjI [OF stxt conjI [OF cnt cht]]]])
qed

theorem chat_stream_closes_with_one_sentinel_witness:
  "validate (JObj [(''message'', JStr ''  hi '')]) = Accept ''hi'' (JStr ''codellama'') \<and>
   (\<forall>obj. (\<lambda>j. ''{}'') (JObj obj) \<noteq> ''[DONE]'') \<and>
   chunks (chat module_init (\<lambda>n rq. Inl (ConnectionError ''refused''))
     (JObj [(''message'', JStr ''  hi '')])) =
     [error_chunk (JStr ''Connection to Ollama failed. Is Ollama running?''), SseDone] \<and>
   count_list (chunks (chat module_init (\<lambda>n rq. Inl (ConnectionError ''refused''))
     (JObj [(''message'', JStr ''  hi '')]))) SseDone = 1 \<and>
   last (chunks (chat module_init (\<lambda>n rq. Inl (ConnectionError ''refused''))
     (JObj [(''message'', JStr ''  hi '')]))) = SseDone \<and>
   count_list (map (sse_text (\<lambda>j. ''{}''))
     (chunks (chat module_init (\<lambda>n rq. Inl (ConnectionError ''refused''))
        (JObj [(''message'', JStr ''  hi '')]))))
     (''data: [DONE]'' @ [CHR 0x0A, CHR 0x0A]) = 1"
proof -
  let ?up = "\<lambda>n rq. Inl (ConnectionError ''refused'')"
  let ?d = "JObj [(''message'', JStr ''  hi '')]"
  let ?ev = "generate_stream (ollama module_init) ?up (JStr ''codellama'') ''hi''
      (Some system_prompt)"
  note inst = chat_stream_closes_with_one_sentinel
      [where events = ?ev and dumps = "\<lambda>j. ''{}''" and data = ?d and user_message = "''hi''"
        and model = "JStr ''codellama''" and a = module_init and up = ?up]
  have dumps: "\<forall>obj. (\<lambda>j. ''{}'') (JObj obj) \<noteq> ''[DONE]''"
    by simp
  note two = conjunct2 [OF mp [OF conjunct2 [OF conjunct2 [OF conjunct2 [OF conjunct2 [OF inst]]]]
        validate_eval]]
  note cnt = mp [OF conjunct1 [OF conjunct2 [OF conjunct2 [OF conjunct2 [OF inst]]]] dumps]
  have ch: "chunks (chat module_init ?up ?d) = yielded (generate ?ev)"
    by (rule chunks_chat [OF validate_eval])
  have three: "count_list (map (sse_text (\<lambda>j. ''{}'')) (chunks (chat module_init ?up ?d)))
      (''data: [DONE]'' @ [CHR 0x0A, CHR 0x0A]) = 1"
    unfolding ch by (rule cnt)
  show ?thesis
    by (rule conjI [OF validate_eval conjI [OF dumps conjI [OF chat_eval
        conjI [OF conjunct1 [OF two] conjI [OF conjunct2 [OF two] three]]]]])
qed


lemma chunk_kinds [simp]:
  "is_response_chunk (response_chunk v)"
  "is_done_chunk (done_chunk kvs)"
  "is_error_chunk (error_chunk v)"
  "\<not> is_done_chunk (response_chunk v)"
  "\<not> is_error_chunk (response_chunk v)"
  "\<not> is_response_chunk SseDone"
  "\<not> is_done_chunk SseDone"
  "\<not> is_error_chunk SseDone"
  by (simp_all add: is_response_chunk_def is_done_chunk_def is_error_chunk_def
      response_chunk_def done_chunk_def error_chunk_def)

lemma relay_event_kinds:
  "c \<in> set (relay_event kvs) \<Longrightarrow> is_response_chunk c \<or> is_done_chunk c"
  by (auto simp: relay_event_def split: option.splits if_splits)

lemma relay_order:
  "\<exists>body tl. yielded (relay g) = body @ tl \<and>
     list_all (\<lambda>c. is_response_chunk c \<or> is_done_chunk c) body \<and>
     (tl = [] \<or> (\<exists>v. tl = [error_chunk v] \<and> raised (relay g) = None))"
proof (induction g rule: relay.induct)
  case (4 chunk g)
  show ?case
  proof (cases chunk)
    case (JObj kvs)
    show ?thesis
    proof (cases "map_of kvs ''error''")
      case None
      from 4 [OF JObj None] obtain body tl where
        h: "yielded (relay g) = body @ tl"
           "list_all (\<lambda>c. is_response_chunk c \<or> is_done_chunk c) body"
           "tl = [] \<or> (\<exists>v. tl = [error_chunk v] \<and> raised (relay g) = None)"
        by blast
      have k: "list_all (\<lambda>c. is_response_chunk c \<or> is_done_chunk c) (relay_event kvs)"
        using relay_event_kinds by (auto simp: list_all_iff)
      have "yielded (relay (Yield chunk g)) = (relay_event kvs @ body) @ tl"
        using JObj None h(1) by (simp add: yielded_yield_all)
      moreover have "list_all (\<lambda>c. is_response_chunk c \<or> is_done_chunk c) (relay_event kvs @ body)"
        using k h(2) by simp
      moreover have "tl = [] \<or> (\<exists>v. tl = [error_chunk v] \<and> raised (relay (Yield chunk g)) = None)"
        using h(3) JObj None by (simp add: raised_yield_all)
      ultimately show ?thesis by blast
    next
      case (Some v)
      have y: "yielded (relay (Yield chunk g)) = [] @ [error_chunk v]"
        using JObj Some by simp
      have r: "raised (relay (Yield chunk g)) = None"
        using JObj Some by simp
      show ?thesis
        by (rule exI [of _ "[]"], rule exI [of _ "[error_chunk v]"]) (simp only: y r, auto)
    qed
  qed (simp_all)
qed simp_all

lemma generate_order:
  "\<exists>body tl. yielded (generate events) = body @ tl @ [SseDone] \<and>
     list_all (\<lambda>c. is_response_chunk c \<or> is_done_chunk c) body \<and>
     (tl = [] \<or> (\<exists>v. tl = [error_chunk v]))"
proof -
  obtain body tl where
    h: "yielded (relay events) = body @ tl"
       "list_all (\<lambda>c. is_response_chunk c \<or> is_done_chunk c) body"
       "tl = [] \<or> (\<exists>v. tl = [error_chunk v] \<and> raised (relay events) = None)"
    using relay_order by blast
  from h(3) show ?thesis
  proof
    assume e: "tl = []"
    have "yielded (generate events) = body @ except_chunks (raised (relay events)) @ [SseDone]"
      using h(1) e by (simp add: yielded_generate)
    moreover have "except_chunks (raised (relay events)) = [] \<or>
        (\<exists>v. except_chunks (raised (relay events)) = [error_chunk v])"
      by (auto simp: except_chunks_def split: option.splits)
    ultimately show ?thesis using h(2) by blast
  next
    assume "\<exists>v. tl = [error_chunk v] \<and> raised (relay events) = None"
    then obtain v where v: "tl = [error_chunk v]" "raised (relay events) = None" by blast
    have "yielded (generate events) = body @ tl @ [SseDone]"
      using h(1) v by (simp add: yielded_generate except_chunks_def)
    then show ?thesis using h(2) v(1) by blast
  qed
qed

lemma relay_plain:
  "list_all plain_event (yielded g) \<Longrightarrow>
   yielded (relay g) = concat (map event_chunks (yielded g)) \<and> raised (relay g) = raised g"
proof (induction g rule: relay.induct)
  case (4 chunk g)
  then show ?case
    by (cases chunk)
       (auto simp: plain_event_def event_chunks_def yielded_yield_all raised_yield_all
          split: option.splits)
qed simp_all


lemma generate_stream_response:
  "up 0 (generate_request self model prompt sp) = Inr r \<Longrightarrow> raise_for_status r = Inr () \<Longrightarrow>
   generate_stream self up model prompt sp =
     stream_except (iter_lines_loop (body_lines r) (body_failure r))"
  by (simp add: generate_stream_def stream_body_def)

lemma generate_stream_post_fails:
  "up 0 (generate_request self model prompt sp) = Inl e \<Longrightarrow>
   generate_stream self up model prompt sp = stream_except (Raise e)"
  by (simp add: generate_stream_def stream_body_def)

lemma generate_stream_bad_status:
  "up 0 (generate_request self model prompt sp) = Inr r \<Longrightarrow> raise_for_status r = Inl e \<Longrightarrow>
   generate_stream self up model prompt sp = stream_except (Raise e)"
  by (simp add: generate_stream_def stream_body_def)

lemma event_chunks_fragment:
  "plain_event ev \<Longrightarrow> \<not> is_done ev \<Longrightarrow>
   event_chunks ev = [] \<or> (\<exists>v. event_chunks ev = [response_chunk v])"
  by (cases ev) (auto simp: plain_event_def is_done_def event_chunks_def relay_event_def
      split: option.splits)

lemma event_chunks_done:
  "plain_event ev \<Longrightarrow> is_done ev \<Longrightarrow>
   \<exists>kvs. event_chunks ev = [done_chunk kvs] \<or> (\<exists>v. event_chunks ev = [response_chunk v, done_chunk kvs])"
  by (cases ev) (auto simp: plain_event_def is_done_def event_chunks_def relay_event_def
      split: option.splits)

lemma fragments_only:
  "list_all (\<lambda>ev. plain_event ev \<and> \<not> is_done ev) evs \<Longrightarrow>
   \<forall>c \<in> set (concat (map event_chunks evs)). \<exists>v. c = response_chunk v"
proof (induction evs)
  case Nil
  then show ?case by simp
next
  case (Cons ev evs)
  then have "event_chunks ev = [] \<or> (\<exists>v. event_chunks ev = [response_chunk v])"
    by (simp add: event_chunks_fragment)
  with Cons show ?case by auto
qed

lemma not_spec_order_fragments:
  assumes "\<forall>c \<in> set rs. \<exists>v. c = response_chunk v"
  shows "\<not> spec_chat_order (rs @ [SseDone])"
proof (cases "rev rs")
  case Nil
  then show ?thesis by (simp add: spec_chat_order_def)
next
  case (Cons t ts)
  then have "t \<in> set rs" by (metis list.set_intros(1) set_rev)
  with assms obtain v where "t = response_chunk v" by blast
  with Cons show ?thesis by (simp add: spec_chat_order_def)
qed

lemma spec_order_done:
  assumes "\<forall>c \<in> set rs. \<exists>v. c = response_chunk v"
  shows "spec_chat_order (rs @ [done_chunk kvs, SseDone])"
    and "spec_chat_order (rs @ [response_chunk v, done_chunk kvs, SseDone])"
  using assms by (auto simp: spec_chat_order_def list_all_iff)


lemma validate_hi:
  "validate (JObj [(''message'', JStr ''hi'')]) = Accept ''hi'' (JStr ''codellama'')"
  by (simp add: validate_def dict_get_def strip_def py_isspace_def DEFAULT_MODEL_def)

lemma chat_chunks_plain:
  assumes acc: "validate data = Accept user_message model"
    and up: "up 0 (generate_request (ollama a) model user_message (Some system_prompt)) = Inr r"
    and st: "raise_for_status r = Inr ()"
    and bf: "body_failure r = None"
    and nf: "list_all (\<lambda>l. \<not> fatal l) (body_lines r)"
    and pl: "list_all plain_event (json_values (body_lines r))"
  shows "chunks (chat a up data) =
         concat (map event_chunks (json_values (body_lines r))) @ [SseDone]"
proof -
  let ?g = "generate_stream (ollama a) up model user_message (Some system_prompt)"
  have g: "?g = stream_except (iter_lines_loop (body_lines r) None)"
    using generate_stream_response [where up = up, OF up st] bf by simp
  have y: "yielded ?g = json_values (body_lines r)"
    by (simp add: g yielded_stream_except yielded_iter_lines_all [OF nf]
        raised_iter_lines_all [OF nf] failure_events_def)
  have e: "raised ?g = None"
    by (simp add: g raised_stream_except raised_iter_lines_all [OF nf] escaping_def)
  have "list_all plain_event (yielded ?g)"
    using pl by (simp only: y)
  from relay_plain [OF this] have
    "yielded (relay ?g) = concat (map event_chunks (json_values (body_lines r)))"
    "raised (relay ?g) = None"
    by (simp_all only: y e)
  then show ?thesis
    by (simp only: chunks_chat [OF acc] yielded_generate) (simp add: except_chunks_def)
qed

lemma relay_except_yield_all:
  "relay_except (yield_all xs g) = yield_all xs (relay_except g)"
  by (induction xs) simp_all

lemma yielded_relay_exact:
  "yielded (relay_except (relay g)) =
     concat (map event_chunks (takeWhile plain_event (yielded g))) @
     stop_chunks (dropWhile plain_event (yielded g)) (raised g)"
proof (induction g rule: relay.induct)
  case 1
  then show ?case by (simp add: stop_chunks_def except_chunks_def)
next
  case (2 e)
  then show ?case by (simp add: stop_chunks_def except_chunks_def)
next
  case (3 s g)
  then show ?case by simp
next
  case (4 chunk g)
  show ?case
  proof (cases chunk)
    case (JObj kvs)
    show ?thesis
    proof (cases "map_of kvs ''error''")
      case None
      with 4 [OF JObj None] JObj show ?thesis
        by (simp add: relay_except_yield_all yielded_yield_all plain_event_def event_chunks_def)
    next
      case (Some v)
      with JObj show ?thesis
        by (simp add: plain_event_def stop_chunks_def)
    qed
  qed (simp_all add: plain_event_def stop_chunks_def except_chunks_def)
qed

lemma chunks_chat_exact:
  assumes "validate data = Accept user_message model"
  shows "chunks (chat a up data) =
     concat (map event_chunks (takeWhile plain_event
       (yielded (generate_stream (ollama a) up model user_message (Some system_prompt))))) @
     stop_chunks (dropWhile plain_event
       (yielded (generate_stream (ollama a) up model user_message (Some system_prompt))))
       (raised (generate_stream (ollama a) up model user_message (Some system_prompt))) @
     [SseDone]"
  by (simp add: chunks_chat [OF assms] generate_def yielded_relay_finally yielded_relay_exact)

lemma stop_chunks_kinds:
  "stop_chunks rest f = [] \<or> (\<exists>v. stop_chunks rest f = [error_chunk v])"
proof (cases rest)
  case Nil
  then show ?thesis by (auto simp: stop_chunks_def except_chunks_def split: option.splits)
next
  case (Cons ev evs)
  then show ?thesis
    by (cases ev) (auto simp: stop_chunks_def except_chunks_def split: option.splits)
qed

lemma event_chunks_explicit:
  "plain_event ev \<Longrightarrow>
   event_chunks ev =
     map response_chunk (fragment_texts [ev]) @
     (if is_done ev then [done_chunk (fields_of ev)] else [])"
  by (cases ev)
     (auto simp: plain_event_def event_chunks_def relay_event_def fragment_texts_def is_done_def
        fields_of_def split: option.splits)

lemma fragment_texts_append:
  "fragment_texts (xs @ ys) = fragment_texts xs @ fragment_texts ys"
  by (induction xs) (simp_all add: fragment_texts_def split: option.splits)

lemma fragment_texts_Cons:
  "fragment_texts (ev # evs) = fragment_texts [ev] @ fragment_texts evs"
  using fragment_texts_append [of "[ev]" evs] by simp

lemma concat_fragments:
  "list_all (\<lambda>ev. plain_event ev \<and> \<not> is_done ev) evs \<Longrightarrow>
   concat (map event_chunks evs) = map response_chunk (fragment_texts evs)"
proof (induction evs)
  case Nil
  then show ?case by (simp add: fragment_texts_def)
next
  case (Cons ev evs)
  then have "event_chunks ev = map response_chunk (fragment_texts [ev])"
    by (simp add: event_chunks_explicit)
  with Cons show ?case
    by (simp add: fragment_texts_Cons [of ev evs])
qed

lemma more_chunk_kinds [simp]:
  "\<not> is_error_chunk (done_chunk kvs)"
  "\<not> is_response_chunk (done_chunk kvs)"
  by (simp_all add: is_response_chunk_def is_error_chunk_def done_chunk_def)

lemma filter_responses [simp]:
  "filter is_done_chunk (map response_chunk xs) = []"
  "filter is_error_chunk (map response_chunk xs) = []"
  by (induction xs) simp_all

text \<open>
  Claim C2, as amended. For every request that passes validation, the chunks of \<^verbatim>\<open>/chat\<close>
  are, in upstream order and for each upstream event up to the first one that is not a
  dict without an \<^verbatim>\<open>error\<close> key, a response chunk carrying its \<^verbatim>\<open>response\<close> field if it has
  one and then a done chunk carrying its stats if its \<^verbatim>\<open>done\<close> is true; then at most one
  error chunk (of that first event, or of the exception that ended the loop); then
  exactly one sentinel. The loop does not add a terminal chunk of its own. When the
  upstream answers with a good status, no line and no body failure raises an exception
  that ends the decoding, and every event is a dict without an \<^verbatim>\<open>error\<close> key: if no event
  is done, the output is exactly the response chunks followed directly by the sentinel,
  which is not the order the specification states; if only the last event is done, the
  output is exactly the response chunks, one done chunk and the sentinel, with no error
  chunk, which is the stated order.
\<close>

theorem chat_chunk_order:
  assumes acc: "validate data = Accept user_message model"
  shows "chunks (chat a up data) =
           concat (map event_chunks (takeWhile plain_event
             (yielded (generate_stream (ollama a) up model user_message (Some system_prompt))))) @
           stop_chunks (dropWhile plain_event
             (yielded (generate_stream (ollama a) up model user_message (Some system_prompt))))
             (raised (generate_stream (ollama a) up model user_message (Some system_prompt))) @
           [SseDone] \<and>
         (plain_event ev \<longrightarrow>
            event_chunks ev =
              map response_chunk (fragment_texts [ev]) @
              (if is_done ev then [done_chunk (fields_of ev)] else [])) \<and>
         (stop_chunks rest f = [] \<or> (\<exists>v. stop_chunks rest f = [error_chunk v])) \<and>
         (\<exists>body tl. chunks (chat a up data) = body @ tl @ [SseDone] \<and>
            list_all (\<lambda>c. is_response_chunk c \<or> is_done_chunk c) body \<and>
            (tl = [] \<or> (\<exists>v. tl = [error_chunk v]))) \<and>
         (up 0 (generate_request (ollama a) model user_message (Some system_prompt)) = Inr r \<and>
          raise_for_status r = Inr () \<and> body_failure r = None \<and>
          list_all (\<lambda>l. \<not> fatal l) (body_lines r) \<and>
          list_all plain_event (json_values (body_lines r)) \<longrightarrow>
            chunks (chat a up data) =
              concat (map event_chunks (json_values (body_lines r))) @ [SseDone] \<and>
            (list_all (\<lambda>ev. \<not> is_done ev) (json_values (body_lines r)) \<longrightarrow>
               chunks (chat a up data) =
                 map response_chunk (fragment_texts (json_values (body_lines r))) @ [SseDone] \<and>
               \<not> spec_chat_order (chunks (chat a up data))) \<and>
            (json_values (body_lines r) \<noteq> [] \<and>
             list_all (\<lambda>ev. \<not> is_done ev) (butlast (json_values (body_lines r))) \<and>
             is_done (last (json_values (body_lines r))) \<longrightarrow>
               chunks (chat a up data) =
                 map response_chunk (fragment_texts (json_values (body_lines r))) @
                 [done_chunk (fields_of (last (json_values (body_lines r)))), SseDone] \<and>
               length (filter is_done_chunk (chunks (chat a up data))) = 1 \<and>
               filter is_error_chunk (chunks (chat a up data)) = [] \<and>
               spec_chat_order (chunks (chat a up data))))"
proof -
  let ?evs = "json_values (body_lines r)"
  let ?out = "chunks (chat a up data)"
  note p1 = chunks_chat_exact [OF acc, of a up]
  have p2: "plain_event ev \<longrightarrow>
            event_chunks ev =
              map response_chunk (fragment_texts [ev]) @
              (if is_done ev then [done_chunk (fields_of ev)] else [])"
    using event_chunks_explicit by blast
  note p3 = stop_chunks_kinds [of rest f]
  have p4: "\<exists>body tl. ?out = body @ tl @ [SseDone] \<and>
            list_all (\<lambda>c. is_response_chunk c \<or> is_done_chunk c) body \<and>
            (tl = [] \<or> (\<exists>v. tl = [error_chunk v]))"
    using generate_order by (simp only: chunks_chat [OF acc])
  have p5: "up 0 (generate_request (ollama a) model user_message (Some system_prompt)) = Inr r \<and>
          raise_for_status r = Inr () \<and> body_failure r = None \<and>
          list_all (\<lambda>l. \<not> fatal l) (body_lines r) \<and>
          list_all plain_event ?evs \<longrightarrow>
            ?out = concat (map event_chunks ?evs) @ [SseDone] \<and>
            (list_all (\<lambda>ev. \<not> is_done ev) ?evs \<longrightarrow>
               ?out = map response_chunk (fragment_texts ?evs) @ [SseDone] \<and>
               \<not> spec_chat_order ?out) \<and>
            (?evs \<noteq> [] \<and> list_all (\<lambda>ev. \<not> is_done ev) (butlast ?evs) \<and>
             is_done (last ?evs) \<longrightarrow>
               ?out = map response_chunk (fragment_texts ?evs) @
                 [done_chunk (fields_of (last ?evs)), SseDone] \<and>
               length (filter is_done_chunk ?out) = 1 \<and>
               filter is_error_chunk ?out = [] \<and>
               spec_chat_order ?out)"
  proof (intro impI, elim conjE)
    assume up: "up 0 (generate_request (ollama a) model user_message (Some system_prompt)) = Inr r"
      and st: "raise_for_status r = Inr ()" and bf: "body_failure r = None"
      and nf: "list_all (\<lambda>l. \<not> fatal l) (body_lines r)"
      and pl: "list_all plain_event ?evs"
    have out: "?out = concat (map event_chunks ?evs) @ [SseDone]"
      by (rule chat_chunks_plain [where up = up, OF acc up st bf nf pl])
    have q1: "list_all (\<lambda>ev. \<not> is_done ev) ?evs \<longrightarrow>
               ?out = map response_chunk (fragment_texts ?evs) @ [SseDone] \<and>
               \<not> spec_chat_order ?out"
    proof
      assume nd: "list_all (\<lambda>ev. \<not> is_done ev) ?evs"
      have both: "list_all (\<lambda>ev. plain_event ev \<and> \<not> is_done ev) ?evs"
        using pl nd by (simp add: list_all_iff)
      have eq: "?out = map response_chunk (fragment_texts ?evs) @ [SseDone]"
        by (simp only: out concat_fragments [OF both])
      have "\<forall>c \<in> set (map response_chunk (fragment_texts ?evs)). \<exists>v. c = response_chunk v"
        by auto
      then have "\<not> spec_chat_order (map response_chunk (fragment_texts ?evs) @ [SseDone])"
        by (rule not_spec_order_fragments)
      then have "\<not> spec_chat_order ?out"
        by (subst eq)
      with eq show "?out = map response_chunk (fragment_texts ?evs) @ [SseDone] \<and>
               \<not> spec_chat_order ?out"
        by (rule conjI)
    qed
    have q2: "?evs \<noteq> [] \<and> list_all (\<lambda>ev. \<not> is_done ev) (butlast ?evs) \<and>
             is_done (last ?evs) \<longrightarrow>
               ?out = map response_chunk (fragment_texts ?evs) @
                 [done_chunk (fields_of (last ?evs)), SseDone] \<and>
               length (filter is_done_chunk ?out) = 1 \<and>
               filter is_error_chunk ?out = [] \<and>
               spec_chat_order ?out"
    proof (intro impI, elim conjE)
      assume ne: "?evs \<noteq> []" and nd: "list_all (\<lambda>ev. \<not> is_done ev) (butlast ?evs)"
        and dn: "is_done (last ?evs)"
      have split: "?evs = butlast ?evs @ [last ?evs]"
        using ne by simp
      have plb: "list_all plain_event (butlast ?evs)" and pll: "plain_event (last ?evs)"
        using pl ne by (auto simp: list_all_iff dest: in_set_butlastD)
      have both: "list_all (\<lambda>ev. plain_event ev \<and> \<not> is_done ev) (butlast ?evs)"
        using plb nd by (simp add: list_all_iff)
      have cc: "concat (map event_chunks ?evs) =
          concat (map event_chunks (butlast ?evs)) @ event_chunks (last ?evs)"
        by (subst split) simp
      have ft: "fragment_texts ?evs =
          fragment_texts (butlast ?evs) @ fragment_texts [last ?evs]"
        by (subst split) (simp only: fragment_texts_append)
      have lastc: "event_chunks (last ?evs) =
          map response_chunk (fragment_texts [last ?evs]) @ [done_chunk (fields_of (last ?evs))]"
        using event_chunks_explicit [OF pll] dn by simp
      have eq: "?out = map response_chunk (fragment_texts ?evs) @
                 [done_chunk (fields_of (last ?evs)), SseDone]"
        by (simp only: out cc concat_fragments [OF both] lastc ft) simp
      have one: "length (filter is_done_chunk ?out) = 1"
        by (simp only: eq) simp
      have noerr: "filter is_error_chunk ?out = []"
        by (simp only: eq) simp
      have "\<forall>c \<in> set (map response_chunk (fragment_texts ?evs)). \<exists>v. c = response_chunk v"
        by auto
      then have "spec_chat_order (map response_chunk (fragment_texts ?evs) @
                 [done_chunk (fields_of (last ?evs)), SseDone])"
        by (rule spec_order_done(1))
      then have so: "spec_chat_order ?out"
        by (subst eq)
      show "?out = map response_chunk (fragment_texts ?evs) @
                 [done_chunk (fields_of (last ?evs)), SseDone] \<and>
               length (filter is_done_chunk ?out) = 1 \<and>
               filter is_error_chunk ?out = [] \<and>
               spec_chat_order ?out"
        by (rule conjI [OF eq conjI [OF one conjI [OF noerr so]]])
    qed
    show "?out = concat (map event_chunks ?evs) @ [SseDone] \<and>
            (list_all (\<lambda>ev. \<not> is_done ev) ?evs \<longrightarrow>
               ?out = map response_chunk (fragment_texts ?evs) @ [SseDone] \<and>
               \<not> spec_chat_order ?out) \<and>
            (?evs \<noteq> [] \<and> list_all (\<lambda>ev. \<not> is_done ev) (butlast ?evs) \<and>
             is_done (last ?evs) \<longrightarrow>
               ?out = map response_chunk (fragment_texts ?evs) @
                 [done_chunk (fields_of (last ?evs)), SseDone] \<and>
               length (filter is_done_chunk ?out) = 1 \<and>
               filter is_error_chunk ?out = [] \<and>
               spec_chat_order ?out)"
      by (rule conjI [OF out conjI [OF q1 q2]])
  qed
  show ?thesis
    by (rule conjI [OF p1 conjI [OF p2 conjI [OF p3 conjI [OF p4 p5]]]])
qed

theorem chat_chunk_order_witness:
  "validate (JObj [(''message'', JStr ''hi'')]) = Accept ''hi'' (JStr ''codellama'') \<and>
   plain_event (JObj [(''response'', JStr ''lo''), (''done'', JBool True)]) \<and>
   event_chunks (JObj [(''response'', JStr ''lo''), (''done'', JBool True)]) =
     [response_chunk (JStr ''lo''),
      done_chunk [(''response'', JStr ''lo''), (''done'', JBool True)]] \<and>
   list_all (\<lambda>l. \<not> fatal l) [JsonLine (JObj [(''response'', JStr ''Hello'')])] \<and>
   list_all plain_event (json_values [JsonLine (JObj [(''response'', JStr ''Hello'')])]) \<and>
   list_all (\<lambda>ev. \<not> is_done ev) (json_values [JsonLine (JObj [(''response'', JStr ''Hello'')])]) \<and>
   chunks (chat module_init
      (always (Inr (ok_response [JsonLine (JObj [(''response'', JStr ''Hello'')])] None)))
      (JObj [(''message'', JStr ''hi'')])) = [response_chunk (JStr ''Hello''), SseDone] \<and>
   list_all (\<lambda>l. \<not> fatal l)
     [JsonLine (JObj [(''response'', JStr ''Hel'')]),
      JsonLine (JObj [(''response'', JStr ''lo''), (''done'', JBool True)])] \<and>
   list_all plain_event (json_values
     [JsonLine (JObj [(''response'', JStr ''Hel'')]),
      JsonLine (JObj [(''response'', JStr ''lo''), (''done'', JBool True)])]) \<and>
   list_all (\<lambda>ev. \<not> is_done ev) (butlast (json_values
     [JsonLine (JObj [(''response'', JStr ''Hel'')]),
      JsonLine (JObj [(''response'', JStr ''lo''), (''done'', JBool True)])])) \<and>
   is_done (last (json_values
     [JsonLine (JObj [(''response'', JStr ''Hel'')]),
      JsonLine (JObj [(''response'', JStr ''lo''), (''done'', JBool True)])])) \<and>
   chunks (chat module_init
      (always (Inr (ok_response
         [JsonLine (JObj [(''response'', JStr ''Hel'')]),
          JsonLine (JObj [(''response'', JStr ''lo''), (''done'', JBool True)])] None)))
      (JObj [(''message'', JStr ''hi'')])) =
     [response_chunk (JStr ''Hel''), response_chunk (JStr ''lo''),
      done_chunk [(''response'', JStr ''lo''), (''done'', JBool True)], SseDone] \<and>
   spec_chat_order (chunks (chat module_init
      (always (Inr (ok_response
         [JsonLine (JObj [(''response'', JStr ''Hel'')]),
          JsonLine (JObj [(''response'', JStr ''lo''), (''done'', JBool True)])] None)))
      (JObj [(''message'', JStr ''hi'')]))) \<and>
   chunks (chat module_init
      (always (Inr (ok_response
         [JsonLine (JObj [(''response'', JStr ''Hel'')]),
          JsonLine (JObj [(''error'', JStr ''boom'')]),
          JsonLine (JObj [(''response'', JStr ''lo'')])] None)))
      (JObj [(''message'', JStr ''hi'')])) =
     [response_chunk (JStr ''Hel''), error_chunk (JStr ''boom''), SseDone]"
proof -
  let ?l1 = "[JsonLine (JObj [(''response'', JStr ''Hello'')])]"
  let ?l2 = "[JsonLine (JObj [(''response'', JStr ''Hel'')]),
              JsonLine (JObj [(''response'', JStr ''lo''), (''done'', JBool True)])]"
  let ?l3 = "[JsonLine (JObj [(''response'', JStr ''Hel'')]),
              JsonLine (JObj [(''error'', JStr ''boom'')]),
              JsonLine (JObj [(''response'', JStr ''lo'')])]"
  let ?D = "JObj [(''message'', JStr ''hi'')]"
  let ?EV = "JObj [(''response'', JStr ''lo''), (''done'', JBool True)]"
  have v1: "json_values ?l1 = [JObj [(''response'', JStr ''Hello'')]]"
    by (simp add: json_values_def)
  have v2: "json_values ?l2 = [JObj [(''response'', JStr ''Hel'')],
      JObj [(''response'', JStr ''lo''), (''done'', JBool True)]]"
    by (simp add: json_values_def)
  have f1: "list_all (\<lambda>l. \<not> fatal l) ?l1" by (simp add: fatal_def)
  have f2: "list_all (\<lambda>l. \<not> fatal l) ?l2" by (simp add: fatal_def)
  have p1: "list_all plain_event (json_values ?l1)" by (simp add: v1 plain_event_def)
  have p2: "list_all plain_event (json_values ?l2)" by (simp add: v2 plain_event_def)
  have n1: "list_all (\<lambda>ev. \<not> is_done ev) (json_values ?l1)"
    by (simp add: v1 is_done_def dict_get_def)
  have ne2: "json_values ?l2 \<noteq> []" by (simp add: v2)
  have n2: "list_all (\<lambda>ev. \<not> is_done ev) (butlast (json_values ?l2))"
    by (simp add: v2 is_done_def dict_get_def)
  have d2: "is_done (last (json_values ?l2))" by (simp add: v2 is_done_def dict_get_def)
  have pe: "plain_event ?EV" by (simp add: plain_event_def)
  have de: "is_done ?EV" by (simp add: is_done_def dict_get_def)
  have fe: "fragment_texts [?EV] = [JStr ''lo'']"
    by (simp add: fragment_texts_def List.map_filter_def)
  have fl: "fields_of ?EV = [(''response'', JStr ''lo''), (''done'', JBool True)]"
    by (simp add: fields_of_def)
  have ft1: "fragment_texts (json_values ?l1) = [JStr ''Hello'']"
    by (simp add: v1 fragment_texts_def List.map_filter_def)
  have ft2: "fragment_texts (json_values ?l2) = [JStr ''Hel'', JStr ''lo'']"
    by (simp add: v2 fragment_texts_def List.map_filter_def)
  have la2: "fields_of (last (json_values ?l2)) =
      [(''response'', JStr ''lo''), (''done'', JBool True)]"
    by (simp add: v2 fields_of_def)
  have e0: "event_chunks ?EV =
      map response_chunk (fragment_texts [?EV]) @
      (if is_done ?EV then [done_chunk (fields_of ?EV)] else [])"
    by (rule mp [OF conjunct1 [OF conjunct2 [OF chat_chunk_order [where ev = ?EV, OF validate_hi]]] pe])
  have e1: "event_chunks ?EV = [response_chunk (JStr ''lo''),
      done_chunk [(''response'', JStr ''lo''), (''done'', JBool True)]]"
    using e0 by (simp only: fe fl de if_True list.map append.simps)
  note t1 = conjunct2 [OF conjunct2 [OF conjunct2 [OF conjunct2 [OF
        chat_chunk_order [where up = "always (Inr (ok_response ?l1 None))"
        and r = "ok_response ?l1 None" and a = module_init, OF validate_hi]]]]]
  have h1: "always (Inr (ok_response ?l1 None)) 0
        (generate_request (ollama module_init) (JStr ''codellama'') ''hi'' (Some system_prompt)) =
          Inr (ok_response ?l1 None) \<and>
      raise_for_status (ok_response ?l1 None) = Inr () \<and>
      body_failure (ok_response ?l1 None) = None \<and>
      list_all (\<lambda>l. \<not> fatal l) (body_lines (ok_response ?l1 None)) \<and>
      list_all plain_event (json_values (body_lines (ok_response ?l1 None)))"
    using f1 p1 by (simp only: always_ok simp_thms)
  have b1: "body_lines (ok_response ?l1 None) = ?l1" by (rule always_ok(4))
  have a1: "chunks (chat module_init (always (Inr (ok_response ?l1 None))) ?D) =
      [response_chunk (JStr ''Hello''), SseDone]"
    using conjunct1 [OF mp [OF conjunct1 [OF conjunct2 [OF mp [OF t1 h1]]]]] n1
    by (simp only: b1 ft1 list.map append.simps simp_thms)
  note t2 = conjunct2 [OF conjunct2 [OF conjunct2 [OF conjunct2 [OF
        chat_chunk_order [where up = "always (Inr (ok_response ?l2 None))"
        and r = "ok_response ?l2 None" and a = module_init, OF validate_hi]]]]]
  have h2: "always (Inr (ok_response ?l2 None)) 0
        (generate_request (ollama module_init) (JStr ''codellama'') ''hi'' (Some system_prompt)) =
          Inr (ok_response ?l2 None) \<and>
      raise_for_status (ok_response ?l2 None) = Inr () \<and>
      body_failure (ok_response ?l2 None) = None \<and>
      list_all (\<lambda>l. \<not> fatal l) (body_lines (ok_response ?l2 None)) \<and>
      list_all plain_event (json_values (body_lines (ok_response ?l2 None)))"
    using f2 p2 by (simp only: always_ok simp_thms)
  have b2: "body_lines (ok_response ?l2 None) = ?l2" by (rule always_ok(4))
  have g2: "json_values (body_lines (ok_response ?l2 None)) \<noteq> [] \<and>
      list_all (\<lambda>ev. \<not> is_done ev) (butlast (json_values (body_lines (ok_response ?l2 None)))) \<and>
      is_done (last (json_values (body_lines (ok_response ?l2 None))))"
    using ne2 n2 d2 by (simp only: b2 simp_thms)
  note u2 = mp [OF conjunct2 [OF conjunct2 [OF mp [OF t2 h2]]] g2]
  have a2: "chunks (chat module_init (always (Inr (ok_response ?l2 None))) ?D) =
      [response_chunk (JStr ''Hel''), response_chunk (JStr ''lo''),
       done_chunk [(''response'', JStr ''lo''), (''done'', JBool True)], SseDone]"
    using conjunct1 [OF u2] by (simp only: b2 ft2 la2 list.map append.simps)
  have s2: "spec_chat_order (chunks (chat module_init (always (Inr (ok_response ?l2 None))) ?D))"
    by (rule conjunct2 [OF conjunct2 [OF conjunct2 [OF u2]]])
  have y3: "yielded (generate_stream (ollama module_init) (always (Inr (ok_response ?l3 None)))
        (JStr ''codellama'') ''hi'' (Some system_prompt)) =
      [JObj [(''response'', JStr ''Hel'')], JObj [(''error'', JStr ''boom'')],
       JObj [(''response'', JStr ''lo'')]]"
    by (simp add: generate_stream_def always_ok stream_body_def)
  have r3: "raised (generate_stream (ollama module_init) (always (Inr (ok_response ?l3 None)))
        (JStr ''codellama'') ''hi'' (Some system_prompt)) = None"
    by (simp add: generate_stream_def always_ok stream_body_def)
  have a3: "chunks (chat module_init (always (Inr (ok_response ?l3 None))) ?D) =
      [response_chunk (JStr ''Hel''), error_chunk (JStr ''boom''), SseDone]"
    using conjunct1 [OF chat_chunk_order [where up = "always (Inr (ok_response ?l3 None))"
        and a = module_init, OF validate_hi]]
    by (simp add: y3 r3 plain_event_def stop_chunks_def event_chunks_def relay_event_def
        dict_get_def)
  show ?thesis
    by (rule conjI [OF validate_hi conjI [OF pe conjI [OF e1 conjI [OF f1 conjI [OF p1
        conjI [OF n1 conjI [OF a1 conjI [OF f2 conjI [OF p2 conjI [OF n2 conjI [OF d2
        conjI [OF a2 conjI [OF s2 a3]]]]]]]]]]]]])
qed


text \<open>
  Claim C2 as stated fails: for an upstream body of a single line
  \<^verbatim>\<open>{"response": "Hello"}\<close> that then ends, the client receives one response chunk and
  the sentinel, with no done or error chunk between them.
\<close>

theorem chat_stream_without_terminal_chunk:
  "chunks (chat module_init
      (always (Inr (ok_response [JsonLine (JObj [(''response'', JStr ''Hello'')])] None)))
      (JObj [(''message'', JStr ''hi'')])) =
     [response_chunk (JStr ''Hello''), SseDone] \<and>
   \<not> spec_chat_order (chunks (chat module_init
      (always (Inr (ok_response [JsonLine (JObj [(''response'', JStr ''Hello'')])] None)))
      (JObj [(''message'', JStr ''hi'')])))"
proof -
  have out: "chunks (chat module_init
      (always (Inr (ok_response [JsonLine (JObj [(''response'', JStr ''Hello'')])] None)))
      (JObj [(''message'', JStr ''hi'')])) =
     [response_chunk (JStr ''Hello''), SseDone]"
    by (simp add: chunks_chat [OF validate_hi] generate_stream_def always_ok stream_body_def
        generate_def relay_event_def dict_get_def)
  have "\<not> spec_chat_order [response_chunk (JStr ''Hello''), SseDone]"
    by (simp add: spec_chat_order_def)
  with out show ?thesis by simp
qed



lemma failure_events_error: "list_all has_error (failure_events f)"
  by (simp add: failure_events_def has_error_def connection_failed_def
      split: option.splits exn.splits)

lemma failure_events_length: "length (failure_events f) \<le> 1"
  by (simp add: failure_events_def split: option.splits exn.splits)

text \<open>
  Claim C3, as amended. \<^verbatim>\<open>generate_stream\<close> yields the event of every JSON line, in order,
  up to the first line on which decoding raises an exception it does not catch (such as
  the \<^verbatim>\<open>UnicodeDecodeError\<close> of a line that is not UTF-8): there decoding ends, no later
  line is decoded, and the exception leaves the generator unless it is a requests
  exception. Up to that line the fields of the events play no part: an event with \<^verbatim>\<open>done\<close>
  true or with an \<^verbatim>\<open>error\<close> field does not end the decoding, and when no line raises such
  an exception every JSON line is yielded. The one event that is always last is the
  error event the decoder makes up itself when the POST, the status check or the body
  iteration fails with a requests exception (at most one, appended after the decoded
  events). It is the loop of \<^verbatim>\<open>generate()\<close> in \<^verbatim>\<open>chat\<close> that stops at the first event with an
  \<^verbatim>\<open>error\<close> key; an event without one, done or not, lets it continue.
\<close>

theorem decoder_events_and_failure_event:
  "(up 0 (generate_request self model prompt sp) = Inr r \<and> raise_for_status r = Inr () \<longrightarrow>
      yielded (generate_stream self up model prompt sp) =
        json_values (takeWhile (\<lambda>l. \<not> fatal l) (body_lines r)) @
        failure_events (loop_failure (body_lines r) (body_failure r))) \<and>
   (up 0 (generate_request self model prompt sp) = Inl e \<longrightarrow>
      yielded (generate_stream self up model prompt sp) = failure_events (Some e)) \<and>
   (up 0 (generate_request self model prompt sp) = Inr r \<and> raise_for_status r = Inl e \<longrightarrow>
      yielded (generate_stream self up model prompt sp) = failure_events (Some e)) \<and>
   list_all has_error (failure_events f) \<and>
   length (failure_events f) \<le> 1 \<and>
   (map_of kvs ''error'' = Some v \<longrightarrow>
      relay (Yield (JObj kvs) g) = Yield (error_chunk v) Stop) \<and>
   (map_of kvs ''error'' = None \<longrightarrow>
      relay (Yield (JObj kvs) g) = yield_all (relay_event kvs) (relay g)) \<and>
   (up 0 (generate_request self model prompt sp) = Inr r \<and> raise_for_status r = Inr () \<longrightarrow>
      raised (generate_stream self up model prompt sp) =
        escaping (loop_failure (body_lines r) (body_failure r)) \<and>
      (list_all (\<lambda>l. \<not> fatal l) (body_lines r) \<longrightarrow>
         yielded (generate_stream self up model prompt sp) =
           json_values (body_lines r) @ failure_events (body_failure r)) \<and>
      (body_lines r = pre @ BadLine x # post \<and> list_all (\<lambda>l. \<not> fatal l) pre \<and>
       fatal (BadLine x) \<longrightarrow>
         yielded (generate_stream self up model prompt sp) =
           json_values pre @ failure_events (Some x) \<and>
         raised (generate_stream self up model prompt sp) = escaping (Some x)))"
proof -
  have a: "up 0 (generate_request self model prompt sp) = Inr r \<and> raise_for_status r = Inr () \<longrightarrow>
      yielded (generate_stream self up model prompt sp) =
        json_values (takeWhile (\<lambda>l. \<not> fatal l) (body_lines r)) @
        failure_events (loop_failure (body_lines r) (body_failure r))"
    by (simp add: generate_stream_def stream_body_def yielded_stream_except
        yielded_iter_lines_loop raised_iter_lines_loop)
  have b: "up 0 (generate_request self model prompt sp) = Inl e \<longrightarrow>
      yielded (generate_stream self up model prompt sp) = failure_events (Some e)"
    by (simp add: generate_stream_def stream_body_def failure_events_def split: exn.splits)
  have c: "up 0 (generate_request self model prompt sp) = Inr r \<and> raise_for_status r = Inl e \<longrightarrow>
      yielded (generate_stream self up model prompt sp) = failure_events (Some e)"
    by (simp add: generate_stream_def stream_body_def failure_events_def split: exn.splits)
  have d: "map_of kvs ''error'' = Some v \<longrightarrow>
      relay (Yield (JObj kvs) g) = Yield (error_chunk v) Stop"
    by simp
  have e: "map_of kvs ''error'' = None \<longrightarrow>
      relay (Yield (JObj kvs) g) = yield_all (relay_event kvs) (relay g)"
    by simp
  have n: "up 0 (generate_request self model prompt sp) = Inr r \<and> raise_for_status r = Inr () \<longrightarrow>
      raised (generate_stream self up model prompt sp) =
        escaping (loop_failure (body_lines r) (body_failure r)) \<and>
      (list_all (\<lambda>l. \<not> fatal l) (body_lines r) \<longrightarrow>
         yielded (generate_stream self up model prompt sp) =
           json_values (body_lines r) @ failure_events (body_failure r)) \<and>
      (body_lines r = pre @ BadLine x # post \<and> list_all (\<lambda>l. \<not> fatal l) pre \<and>
       fatal (BadLine x) \<longrightarrow>
         yielded (generate_stream self up model prompt sp) =
           json_values pre @ failure_events (Some x) \<and>
         raised (generate_stream self up model prompt sp) = escaping (Some x))"
  proof (intro impI, elim conjE)
    assume u: "up 0 (generate_request self model prompt sp) = Inr r"
      and st: "raise_for_status r = Inr ()"
    have g: "generate_stream self up model prompt sp =
        stream_except (iter_lines_loop (body_lines r) (body_failure r))"
      using u st by (simp add: generate_stream_def stream_body_def)
    have y: "yielded (generate_stream self up model prompt sp) =
        json_values (takeWhile (\<lambda>l. \<not> fatal l) (body_lines r)) @
        failure_events (loop_failure (body_lines r) (body_failure r))"
      by (simp only: g yielded_stream_except yielded_iter_lines_loop raised_iter_lines_loop)
    have rs: "raised (generate_stream self up model prompt sp) =
        escaping (loop_failure (body_lines r) (body_failure r))"
      by (simp only: g raised_stream_except raised_iter_lines_loop)
    have nf: "list_all (\<lambda>l. \<not> fatal l) (body_lines r) \<longrightarrow>
         yielded (generate_stream self up model prompt sp) =
           json_values (body_lines r) @ failure_events (body_failure r)"
      by (simp add: y takeWhile_no_fatal loop_failure_no_fatal)
    have ft: "body_lines r = pre @ BadLine x # post \<and> list_all (\<lambda>l. \<not> fatal l) pre \<and>
       fatal (BadLine x) \<longrightarrow>
         yielded (generate_stream self up model prompt sp) =
           json_values pre @ failure_events (Some x) \<and>
         raised (generate_stream self up model prompt sp) = escaping (Some x)"
      by (simp add: y rs takeWhile_at_fatal loop_failure_at_fatal)
    show "raised (generate_stream self up model prompt sp) =
        escaping (loop_failure (body_lines r) (body_failure r)) \<and>
      (list_all (\<lambda>l. \<not> fatal l) (body_lines r) \<longrightarrow>
         yielded (generate_stream self up model prompt sp) =
           json_values (body_lines r) @ failure_events (body_failure r)) \<and>
      (body_lines r = pre @ BadLine x # post \<and> list_all (\<lambda>l. \<not> fatal l) pre \<and>
       fatal (BadLine x) \<longrightarrow>
         yielded (generate_stream self up model prompt sp) =
           json_values pre @ failure_events (Some x) \<and>
         raised (generate_stream self up model prompt sp) = escaping (Some x))"
      by (rule conjI [OF rs conjI [OF nf ft]])
  qed
  show ?thesis
    by (rule conjI [OF a conjI [OF b conjI [OF c conjI [OF failure_events_error
        conjI [OF failure_events_length conjI [OF d conjI [OF e n]]]]]]])
qed

theorem decoder_events_and_failure_event_witness:
  "always (Inr (ok_response
       [JsonLine (JObj [(''done'', JBool True)]), EmptyLine,
        JsonLine (JObj [(''response'', JStr ''x'')])] (Some (ConnectionError ''reset'')))) 0
     (generate_request (ollama module_init) (JStr ''codellama'') ''hi'' None) =
     Inr (ok_response
       [JsonLine (JObj [(''done'', JBool True)]), EmptyLine,
        JsonLine (JObj [(''response'', JStr ''x'')])] (Some (ConnectionError ''reset''))) \<and>
   raise_for_status (ok_response
       [JsonLine (JObj [(''done'', JBool True)]), EmptyLine,
        JsonLine (JObj [(''response'', JStr ''x'')])] (Some (ConnectionError ''reset''))) = Inr () \<and>
   yielded (generate_stream (ollama module_init)
     (always (Inr (ok_response
       [JsonLine (JObj [(''done'', JBool True)]), EmptyLine,
        JsonLine (JObj [(''response'', JStr ''x'')])] (Some (ConnectionError ''reset'')))))
     (JStr ''codellama'') ''hi'' None) =
     [JObj [(''done'', JBool True)], JObj [(''response'', JStr ''x'')], connection_failed] \<and>
   always (Inl (Timeout ''timed out'')) 0
     (generate_request (ollama module_init) (JStr ''codellama'') ''hi'' None) =
     Inl (Timeout ''timed out'') \<and>
   yielded (generate_stream (ollama module_init) (always (Inl (Timeout ''timed out'')))
     (JStr ''codellama'') ''hi'' None) = [connection_failed] \<and>
   raise_for_status \<lparr> status_code = 500, status_error = ''500 Server Error'',
       json_result = Inl (RequestException []), body_lines = [], body_failure = None \<rparr> =
     Inl (RequestException ''500 Server Error'') \<and>
   yielded (generate_stream (ollama module_init)
     (always (Inr \<lparr> status_code = 500, status_error = ''500 Server Error'',
       json_result = Inl (RequestException []), body_lines = [], body_failure = None \<rparr>))
     (JStr ''codellama'') ''hi'' None) =
     [JObj [(''error'', JStr ''Request failed: 500 Server Error'')]] \<and>
   map_of [(''error'', JStr ''boom''), (''response'', JStr ''x'')] ''error'' = Some (JStr ''boom'') \<and>
   relay (Yield (JObj [(''error'', JStr ''boom''), (''response'', JStr ''x'')])
            (Yield (JObj [(''response'', JStr ''y'')]) Stop)) =
     Yield (error_chunk (JStr ''boom'')) Stop \<and>
   map_of [(''done'', JBool True)] ''error'' = None \<and>
   relay (Yield (JObj [(''done'', JBool True)]) (Yield (JObj [(''response'', JStr ''y'')]) Stop)) =
     Yield (done_chunk [(''done'', JBool True)]) (Yield (response_chunk (JStr ''y'')) Stop) \<and>
   list_all (\<lambda>l. \<not> fatal l) [JsonLine (JObj [(''done'', JBool True)])] \<and>
   fatal (BadLine (UnicodeDecodeError ''invalid start byte'')) \<and>
   yielded (generate_stream (ollama module_init)
     (always (Inr (ok_response
       ([JsonLine (JObj [(''done'', JBool True)])] @ BadLine (UnicodeDecodeError ''invalid start byte'') #
          [JsonLine (JObj [(''response'', JStr ''x'')])]) None)))
     (JStr ''codellama'') ''hi'' None) = [JObj [(''done'', JBool True)]] \<and>
   raised (generate_stream (ollama module_init)
     (always (Inr (ok_response
       ([JsonLine (JObj [(''done'', JBool True)])] @ BadLine (UnicodeDecodeError ''invalid start byte'') #
          [JsonLine (JObj [(''response'', JStr ''x'')])]) None)))
     (JStr ''codellama'') ''hi'' None) = Some (UnicodeDecodeError ''invalid start byte'')"
proof -
  let ?ls = "[JsonLine (JObj [(''done'', JBool True)]), EmptyLine,
              JsonLine (JObj [(''response'', JStr ''x'')])]"
  let ?r = "ok_response ?ls (Some (ConnectionError ''reset''))"
  let ?rq = "generate_request (ollama module_init) (JStr ''codellama'') ''hi'' None"
  have h1: "always (Inr ?r) 0 ?rq = Inr ?r \<and> raise_for_status ?r = Inr ()"
    by (simp only: always_ok simp_thms)
  note t1 = conjunct1 [OF decoder_events_and_failure_event [where up = "always (Inr ?r)" and r = ?r
        and self = "ollama module_init" and model = "JStr ''codellama''" and prompt = "''hi''"
        and sp = None]]
  have v1: "json_values (takeWhile (\<lambda>l. \<not> fatal l) (body_lines ?r)) @
        failure_events (loop_failure (body_lines ?r) (body_failure ?r)) =
      [JObj [(''done'', JBool True)], JObj [(''response'', JStr ''x'')], connection_failed]"
    by (simp add: always_ok fatal_def json_values_def failure_events_def)
  have a1: "yielded (generate_stream (ollama module_init) (always (Inr ?r))
      (JStr ''codellama'') ''hi'' None) =
      [JObj [(''done'', JBool True)], JObj [(''response'', JStr ''x'')], connection_failed]"
    using mp [OF t1 h1] by (simp only: v1)
  have h2: "always (Inl (Timeout ''timed out'')) 0 ?rq = Inl (Timeout ''timed out'')"
    by (simp add: always_def)
  note t2 = conjunct1 [OF conjunct2 [OF decoder_events_and_failure_event [where up = "always (Inl (Timeout ''timed out''))"
        and e = "Timeout ''timed out''"
        and self = "ollama module_init" and model = "JStr ''codellama''" and prompt = "''hi''"
        and sp = None]]]
  have a2: "yielded (generate_stream (ollama module_init) (always (Inl (Timeout ''timed out'')))
      (JStr ''codellama'') ''hi'' None) = [connection_failed]"
    using mp [OF t2 h2] by (simp add: failure_events_def)
  let ?r5 = "\<lparr> status_code = 500, status_error = ''500 Server Error'',
       json_result = Inl (RequestException []), body_lines = [], body_failure = None \<rparr>"
  have h5: "raise_for_status ?r5 = Inl (RequestException ''500 Server Error'')"
    by (simp add: raise_for_status_def)
  have h5': "always (Inr ?r5) 0 ?rq = Inr ?r5 \<and>
      raise_for_status ?r5 = Inl (RequestException ''500 Server Error'')"
    using h5 by (simp add: always_def)
  note t5 = conjunct1 [OF conjunct2 [OF conjunct2 [OF decoder_events_and_failure_event
        [where up = "always (Inr ?r5)" and r = ?r5 and e = "RequestException ''500 Server Error''"
          and self = "ollama module_init" and model = "JStr ''codellama''" and prompt = "''hi''"
          and sp = None]]]]
  have a5: "yielded (generate_stream (ollama module_init) (always (Inr ?r5))
      (JStr ''codellama'') ''hi'' None) =
      [JObj [(''error'', JStr ''Request failed: 500 Server Error'')]]"
    using mp [OF t5 h5'] by (simp add: failure_events_def)
  have h3: "map_of [(''error'', JStr ''boom''), (''response'', JStr ''x'')] ''error'' =
      Some (JStr ''boom'')"
    by simp
  note t3 = conjunct1 [OF conjunct2 [OF conjunct2 [OF conjunct2 [OF conjunct2 [OF conjunct2
        [OF decoder_events_and_failure_event [where kvs = "[(''error'', JStr ''boom''), (''response'', JStr ''x'')]"
            and v = "JStr ''boom''" and g = "Yield (JObj [(''response'', JStr ''y'')]) Stop"]]]]]]]
  note a3 = mp [OF t3 h3]
  have h4: "map_of [(''done'', JBool True)] ''error'' = None"
    by simp
  note t4 = conjunct1 [OF conjunct2 [OF conjunct2 [OF conjunct2 [OF conjunct2 [OF conjunct2
        [OF conjunct2 [OF decoder_events_and_failure_event [where kvs = "[(''done'', JBool True)]"
            and g = "Yield (JObj [(''response'', JStr ''y'')]) Stop"]]]]]]]]
  have a4: "relay (Yield (JObj [(''done'', JBool True)])
        (Yield (JObj [(''response'', JStr ''y'')]) Stop)) =
      Yield (done_chunk [(''done'', JBool True)]) (Yield (response_chunk (JStr ''y'')) Stop)"
    using mp [OF t4 h4] by (simp add: relay_event_def dict_get_def)
  let ?bad = "BadLine (UnicodeDecodeError ''invalid start byte'')"
  let ?post = "[JsonLine (JObj [(''response'', JStr ''x'')])]"
  let ?r6 = "ok_response ([JsonLine (JObj [(''done'', JBool True)])] @ ?bad # ?post) None"
  have h6: "always (Inr ?r6) 0 ?rq = Inr ?r6 \<and> raise_for_status ?r6 = Inr ()"
    by (simp only: always_ok simp_thms)
  have e6: "list_all (\<lambda>l. \<not> fatal l) [JsonLine (JObj [(''done'', JBool True)])]" by (simp add: fatal_def)
  have f6: "fatal ?bad" by (simp add: fatal_def)
  have h6': "body_lines ?r6 = [JsonLine (JObj [(''done'', JBool True)])] @ ?bad # ?post \<and> list_all (\<lambda>l. \<not> fatal l) [JsonLine (JObj [(''done'', JBool True)])] \<and>
      fatal ?bad"
    using e6 f6 by (simp only: always_ok simp_thms)
  note t6 = conjunct2 [OF conjunct2 [OF conjunct2 [OF conjunct2 [OF conjunct2 [OF conjunct2
        [OF conjunct2 [OF decoder_events_and_failure_event [where up = "always (Inr ?r6)" and r = ?r6
            and self = "ollama module_init" and model = "JStr ''codellama''" and prompt = "''hi''"
            and sp = None and pre = "[JsonLine (JObj [(''done'', JBool True)])]" and x = "UnicodeDecodeError ''invalid start byte''"
            and post = ?post]]]]]]]]
  note u6 = mp [OF conjunct2 [OF conjunct2 [OF mp [OF t6 h6]]] h6']
  have a6: "yielded (generate_stream (ollama module_init) (always (Inr ?r6))
        (JStr ''codellama'') ''hi'' None) = [JObj [(''done'', JBool True)]] \<and>
      raised (generate_stream (ollama module_init) (always (Inr ?r6))
        (JStr ''codellama'') ''hi'' None) = Some (UnicodeDecodeError ''invalid start byte'')"
    using u6 by (simp add: json_values_def failure_events_def escaping_def)
  show ?thesis
    using h1 a1 h2 a2 h5 a5 h3 a3 h4 a4 e6 f6 a6 by blast
qed


text \<open>
  Claim C3 as stated fails: after a line \<^verbatim>\<open>{"done": true}\<close>, and after a line with an
  \<^verbatim>\<open>error\<close> field, the decoder still yields the event of the next line.
\<close>

theorem decoder_continues_after_done_or_error:
  "yielded (generate_stream (ollama module_init)
      (always (Inr (ok_response
         [JsonLine (JObj [(''done'', JBool True)]),
          JsonLine (JObj [(''response'', JStr ''x'')])] None)))
      (JStr ''codellama'') ''hi'' (Some system_prompt)) =
     [JObj [(''done'', JBool True)], JObj [(''response'', JStr ''x'')]] \<and>
   \<not> spec_terminal_last (yielded (generate_stream (ollama module_init)
      (always (Inr (ok_response
         [JsonLine (JObj [(''done'', JBool True)]),
          JsonLine (JObj [(''response'', JStr ''x'')])] None)))
      (JStr ''codellama'') ''hi'' (Some system_prompt))) \<and>
   \<not> spec_terminal_last (yielded (generate_stream (ollama module_init)
      (always (Inr (ok_response
         [JsonLine (JObj [(''error'', JStr ''model not found'')]),
          JsonLine (JObj [(''response'', JStr ''x'')])] None)))
      (JStr ''codellama'') ''hi'' (Some system_prompt)))"
  by (simp add: generate_stream_def always_ok stream_body_def spec_terminal_last_def
      is_done_def has_error_def dict_get_def)

text \<open>
  Claim C9. An event that reaches lines 174 to 184 of the loop (a dict without an
  \<^verbatim>\<open>error\<close> key) and holds both a \<^verbatim>\<open>response\<close> field and a true \<^verbatim>\<open>done\<close> makes the stream
  emit two chunks, in order: the response chunk carrying the text, then the done chunk
  carrying the four stats (absent ones as 0); the loop then goes on. When it is the only
  event of the body, the client receives these two chunks and the sentinel.
\<close>

theorem response_and_done_event_yields_two_chunks:
  assumes "map_of kvs ''error'' = None"
    and "map_of kvs ''response'' = Some v"
    and "truthy (dict_get kvs ''done'' (JBool False))"
  shows "relay (Yield (JObj kvs) g) = Yield (response_chunk v) (Yield (done_chunk kvs) (relay g)) \<and>
         response_chunk v = SseData (JObj [(''response'', v)]) \<and>
         done_chunk kvs = SseData (JObj [(''done'', JBool True),
           (''stats'', JObj [(''total_duration'', dict_get kvs ''total_duration'' (JInt 0)),
                             (''load_duration'', dict_get kvs ''load_duration'' (JInt 0)),
                             (''prompt_eval_count'', dict_get kvs ''prompt_eval_count'' (JInt 0)),
                             (''eval_count'', dict_get kvs ''eval_count'' (JInt 0))])]) \<and>
         (validate data = Accept user_message model \<and>
          up 0 (generate_request (ollama a) model user_message (Some system_prompt)) = Inr r \<and>
          raise_for_status r = Inr () \<and> body_lines r = [JsonLine (JObj kvs)] \<and>
          body_failure r = None \<longrightarrow>
            chunks (chat a up data) = [response_chunk v, done_chunk kvs, SseDone])"
proof -
  have ev: "relay_event kvs = [response_chunk v, done_chunk kvs]"
    using assms by (simp add: relay_event_def)
  have a: "relay (Yield (JObj kvs) g) = Yield (response_chunk v) (Yield (done_chunk kvs) (relay g))"
    using assms(1) by (simp add: ev)
  have b: "response_chunk v = SseData (JObj [(''response'', v)])"
    by (simp add: response_chunk_def)
  have c: "done_chunk kvs = SseData (JObj [(''done'', JBool True),
           (''stats'', JObj [(''total_duration'', dict_get kvs ''total_duration'' (JInt 0)),
                             (''load_duration'', dict_get kvs ''load_duration'' (JInt 0)),
                             (''prompt_eval_count'', dict_get kvs ''prompt_eval_count'' (JInt 0)),
                             (''eval_count'', dict_get kvs ''eval_count'' (JInt 0))])])"
    by (simp add: done_chunk_def stats_of_def)
  have d: "validate data = Accept user_message model \<and>
          up 0 (generate_request (ollama a) model user_message (Some system_prompt)) = Inr r \<and>
          raise_for_status r = Inr () \<and> body_lines r = [JsonLine (JObj kvs)] \<and>
          body_failure r = None \<longrightarrow>
            chunks (chat a up data) = [response_chunk v, done_chunk kvs, SseDone]"
  proof (intro impI, elim conjE)
    assume acc: "validate data = Accept user_message model"
      and up: "up 0 (generate_request (ollama a) model user_message (Some system_prompt)) = Inr r"
      and st: "raise_for_status r = Inr ()" and ls: "body_lines r = [JsonLine (JObj kvs)]"
      and bf: "body_failure r = None"
    have "generate_stream (ollama a) up model user_message (Some system_prompt) =
        Yield (JObj kvs) Stop"
      using generate_stream_response [where up = up, OF up st] ls bf by simp
    then show "chunks (chat a up data) = [response_chunk v, done_chunk kvs, SseDone]"
      using assms(1) by (simp add: chunks_chat [OF acc] generate_def ev)
  qed
  show ?thesis
    by (rule conjI [OF a conjI [OF b conjI [OF c d]]])
qed


theorem response_and_done_event_yields_two_chunks_witness:
  "map_of [(''response'', JStr ''!''), (''done'', JBool True), (''eval_count'', JInt 7)] ''error'' = None \<and>
   map_of [(''response'', JStr ''!''), (''done'', JBool True), (''eval_count'', JInt 7)] ''response'' =
     Some (JStr ''!'') \<and>
   truthy (dict_get [(''response'', JStr ''!''), (''done'', JBool True), (''eval_count'', JInt 7)]
     ''done'' (JBool False)) \<and>
   validate (JObj [(''message'', JStr ''hi'')]) = Accept ''hi'' (JStr ''codellama'') \<and>
   chunks (chat module_init
     (always (Inr (ok_response
        [JsonLine (JObj [(''response'', JStr ''!''), (''done'', JBool True),
                         (''eval_count'', JInt 7)])] None)))
     (JObj [(''message'', JStr ''hi'')])) =
     [SseData (JObj [(''response'', JStr ''!'')]),
      SseData (JObj [(''done'', JBool True),
        (''stats'', JObj [(''total_duration'', JInt 0), (''load_duration'', JInt 0),
                          (''prompt_eval_count'', JInt 0), (''eval_count'', JInt 7)])]),
      SseDone]"
proof -
  let ?kvs = "[(''response'', JStr ''!''), (''done'', JBool True), (''eval_count'', JInt 7)]"
  let ?r = "ok_response [JsonLine (JObj ?kvs)] None"
  have e1: "map_of ?kvs ''error'' = None" by simp
  have e2: "map_of ?kvs ''response'' = Some (JStr ''!'')" by simp
  have e3: "truthy (dict_get ?kvs ''done'' (JBool False))" by (simp add: dict_get_def)
  note t = response_and_done_event_yields_two_chunks [OF e1 e2 e3, where up = "always (Inr ?r)" and r = ?r and a = module_init
      and data = "JObj [(''message'', JStr ''hi'')]" and user_message = "''hi''"
      and model = "JStr ''codellama''"]
  have h: "validate (JObj [(''message'', JStr ''hi'')]) = Accept ''hi'' (JStr ''codellama'') \<and>
      always (Inr ?r) 0
        (generate_request (ollama module_init) (JStr ''codellama'') ''hi'' (Some system_prompt)) =
        Inr ?r \<and>
      raise_for_status ?r = Inr () \<and> body_lines ?r = [JsonLine (JObj ?kvs)] \<and>
      body_failure ?r = None"
    by (simp only: always_ok validate_hi simp_thms)
  have out: "chunks (chat module_init (always (Inr ?r)) (JObj [(''message'', JStr ''hi'')])) =
      [response_chunk (JStr ''!''), done_chunk ?kvs, SseDone]"
    by (rule mp [OF conjunct2 [OF conjunct2 [OF conjunct2 [OF t]]] h])
  have ev: "[response_chunk (JStr ''!''), done_chunk ?kvs, SseDone] =
      [SseData (JObj [(''response'', JStr ''!'')]),
       SseData (JObj [(''done'', JBool True),
         (''stats'', JObj [(''total_duration'', JInt 0), (''load_duration'', JInt 0),
                           (''prompt_eval_count'', JInt 0), (''eval_count'', JInt 7)])]),
       SseDone]"
    by (simp add: response_chunk_def done_chunk_def stats_of_def dict_get_def)
  show ?thesis
    using e1 e2 e3 validate_hi out unfolding ev by blast
qed


section \<open>Properties of request validation\<close>



lemma validate_not_str:
  assumes "map_of kvs ''message'' = Some v" and "\<forall>s. v \<noteq> JStr s"
  shows "validate (JObj kvs) = Fail (no_attribute v ''strip'')"
proof -
  have "kvs \<noteq> []" using assms(1) by auto
  with assms show ?thesis by (cases v) (simp_all add: validate_def dict_get_def)
qed

lemma validate_accept:
  assumes "map_of kvs ''message'' = Some (JStr s)" and "strip s \<noteq> []"
  shows "validate (JObj kvs) = Accept (strip s) (dict_get kvs ''model'' (JStr DEFAULT_MODEL))"
proof -
  have "kvs \<noteq> []" using assms(1) by auto
  with assms show ?thesis by (simp add: validate_def dict_get_def Let_def)
qed


lemma chat_reject:
  "validate data = Reject r \<Longrightarrow> chat a up data = (Inr r, io0)"
  "validate data = Reject r \<Longrightarrow> chat_simple a up data = (Inr r, io0)"
  by (simp_all add: chat_def chat_simple_def)

lemma chat_fail:
  "validate data = Fail e \<Longrightarrow> chat a up data = (Inl e, io0)"
  "validate data = Fail e \<Longrightarrow> chat_simple a up data = (Inl e, io0)"
  by (simp_all add: chat_def chat_simple_def)


lemma dispatch_exception:
  "is_Exception e \<Longrightarrow>
   reply_status (dispatch (Inl e, s)) = Some 500 \<and>
   reply_json (dispatch (Inl e, s)) = Some (JObj [(''error'', JStr ''Internal server error'')]) \<and>
   calls (snd (dispatch (Inl e, s))) = calls s"
  by (simp add: dispatch_def internal_error_def reply_status_def reply_json_def jsonify_def
      log_error_def)










lemma chat_accept_status:
  "validate data = Accept m model \<Longrightarrow> reply_status (chat a up data) = Some 200"
  by (simp add: chat_def reply_status_def Let_def)

lemma chat_simple_accept_status:
  "validate data = Accept m model \<Longrightarrow> reply_status (chat_simple a up data) \<noteq> Some 400"
  by (auto simp: chat_simple_def send_def simple_except_def reply_status_def jsonify_def
      split: sum.splits exn.splits prod.splits)



lemma validate_reject_status: "validate data = Reject r \<Longrightarrow> status r = 400"
  by (cases data)
     (auto simp: validate_def jsonify_def Let_def split: if_splits json.splits)

lemma validate_obj_reject_iff:
  "(\<exists>r. validate (JObj kvs) = Reject r) =
     (kvs = [] \<or> map_of kvs ''message'' = None \<or>
      (\<exists>s. map_of kvs ''message'' = Some (JStr s) \<and> strip s = []))"
proof (cases "kvs = []")
  case True
  then show ?thesis by (simp add: validate_def)
next
  case ne: False
  show ?thesis
  proof (cases "map_of kvs ''message''")
    case None
    with ne show ?thesis by (simp add: validate_def dict_get_def strip_def)
  next
    case (Some v)
    with ne show ?thesis by (cases v) (simp_all add: validate_def dict_get_def Let_def)
  qed
qed

lemma validate_reject_iff:
  "(\<exists>r. validate data = Reject r) =
     (\<not> truthy data \<or>
      (\<exists>kvs. data = JObj kvs \<and>
         (map_of kvs ''message'' = None \<or>
          (\<exists>s. map_of kvs ''message'' = Some (JStr s) \<and> strip s = []))))"
proof (cases data)
  case (JObj kvs)
  have "(\<not> truthy (JObj kvs) \<or>
      (\<exists>kvs'. JObj kvs = JObj kvs' \<and>
         (map_of kvs' ''message'' = None \<or>
          (\<exists>s. map_of kvs' ''message'' = Some (JStr s) \<and> strip s = [])))) =
     (kvs = [] \<or> map_of kvs ''message'' = None \<or>
      (\<exists>s. map_of kvs ''message'' = Some (JStr s) \<and> strip s = []))"
    by simp
  then show ?thesis unfolding JObj by (simp only: validate_obj_reject_iff)
qed (simp_all add: validate_def)


lemma status_400_reject:
  "(reply_status (chat a up data) = Some 400) = (\<exists>r. validate data = Reject r)"
  "(reply_status (chat_simple a up data) = Some 400) = (\<exists>r. validate data = Reject r)"
proof -
  show "(reply_status (chat a up data) = Some 400) = (\<exists>r. validate data = Reject r)"
  proof (cases "validate data")
    case (Reject r)
    then show ?thesis
      using validate_reject_status [OF Reject] by (simp add: chat_reject reply_status_def)
  next
    case (Accept m model)
    then show ?thesis using chat_accept_status [OF Accept] by simp
  next
    case (Fail e)
    then show ?thesis by (simp add: chat_fail reply_status_def)
  qed
  show "(reply_status (chat_simple a up data) = Some 400) = (\<exists>r. validate data = Reject r)"
  proof (cases "validate data")
    case (Reject r)
    then show ?thesis
      using validate_reject_status [OF Reject] by (simp add: chat_reject reply_status_def)
  next
    case (Accept m model)
    then show ?thesis using chat_simple_accept_status [OF Accept] by simp
  next
    case (Fail e)
    then show ?thesis by (simp add: chat_fail reply_status_def)
  qed
qed

text \<open>
  Claim C10. Both handlers answer 400 exactly when the body is falsy or an object whose
  \<^verbatim>\<open>message\<close> is absent or a string trimming to empty. Validation is not total over JSON
  bodies: for an object whose \<^verbatim>\<open>message\<close> holds a value that is not a string (a number,
  \<^verbatim>\<open>null\<close>, a list), \<^verbatim>\<open>.strip()\<close> raises an \<^verbatim>\<open>AttributeError\<close> that leaves the view function,
  and the client gets the 500 reply of \<^verbatim>\<open>internal_error\<close>, not a 400.
\<close>

theorem non_string_message_gives_500:
  "(reply_status (chat a up data) = Some 400) =
     (\<not> truthy data \<or>
      (\<exists>kvs. data = JObj kvs \<and>
         (map_of kvs ''message'' = None \<or>
          (\<exists>s. map_of kvs ''message'' = Some (JStr s) \<and> strip s = [])))) \<and>
   (reply_status (chat_simple a up data) = Some 400) =
     (\<not> truthy data \<or>
      (\<exists>kvs. data = JObj kvs \<and>
         (map_of kvs ''message'' = None \<or>
          (\<exists>s. map_of kvs ''message'' = Some (JStr s) \<and> strip s = [])))) \<and>
   (data = JObj kvs \<and> map_of kvs ''message'' = Some v \<and> (\<forall>s. v \<noteq> JStr s) \<longrightarrow>
      validate data = Fail (no_attribute v ''strip'') \<and>
      chat a up data = (Inl (no_attribute v ''strip''), io0) \<and>
      chat_simple a up data = (Inl (no_attribute v ''strip''), io0) \<and>
      reply_status (dispatch (chat a up data)) = Some 500 \<and>
      reply_json (dispatch (chat a up data)) =
        Some (JObj [(''error'', JStr ''Internal server error'')]) \<and>
      reply_status (dispatch (chat_simple a up data)) = Some 500 \<and>
      reply_json (dispatch (chat_simple a up data)) =
        Some (JObj [(''error'', JStr ''Internal server error'')]))"
proof -
  have p1: "(reply_status (chat a up data) = Some 400) =
     (\<not> truthy data \<or>
      (\<exists>kvs. data = JObj kvs \<and>
         (map_of kvs ''message'' = None \<or>
          (\<exists>s. map_of kvs ''message'' = Some (JStr s) \<and> strip s = []))))"
    by (simp only: status_400_reject validate_reject_iff)
  have p2: "(reply_status (chat_simple a up data) = Some 400) =
     (\<not> truthy data \<or>
      (\<exists>kvs. data = JObj kvs \<and>
         (map_of kvs ''message'' = None \<or>
          (\<exists>s. map_of kvs ''message'' = Some (JStr s) \<and> strip s = []))))"
    by (simp only: status_400_reject validate_reject_iff)
  have p3: "data = JObj kvs \<and> map_of kvs ''message'' = Some v \<and> (\<forall>s. v \<noteq> JStr s) \<longrightarrow>
      validate data = Fail (no_attribute v ''strip'') \<and>
      chat a up data = (Inl (no_attribute v ''strip''), io0) \<and>
      chat_simple a up data = (Inl (no_attribute v ''strip''), io0) \<and>
      reply_status (dispatch (chat a up data)) = Some 500 \<and>
      reply_json (dispatch (chat a up data)) =
        Some (JObj [(''error'', JStr ''Internal server error'')]) \<and>
      reply_status (dispatch (chat_simple a up data)) = Some 500 \<and>
      reply_json (dispatch (chat_simple a up data)) =
        Some (JObj [(''error'', JStr ''Internal server error'')])"
  proof (intro impI, elim conjE)
    assume d: "data = JObj kvs" and m: "map_of kvs ''message'' = Some v"
      and ns: "\<forall>s. v \<noteq> JStr s"
    have f: "validate data = Fail (no_attribute v ''strip'')"
      unfolding d by (rule validate_not_str [OF m ns])
    have ex: "is_Exception (no_attribute v ''strip'')"
      by (simp add: no_attribute_def)
    show "validate data = Fail (no_attribute v ''strip'') \<and>
      chat a up data = (Inl (no_attribute v ''strip''), io0) \<and>
      chat_simple a up data = (Inl (no_attribute v ''strip''), io0) \<and>
      reply_status (dispatch (chat a up data)) = Some 500 \<and>
      reply_json (dispatch (chat a up data)) =
        Some (JObj [(''error'', JStr ''Internal server error'')]) \<and>
      reply_status (dispatch (chat_simple a up data)) = Some 500 \<and>
      reply_json (dispatch (chat_simple a up data)) =
        Some (JObj [(''error'', JStr ''Internal server error'')])"
      using f dispatch_exception [OF ex, of io0] by (simp add: chat_fail [OF f])
  qed
  show ?thesis
    by (rule conjI [OF p1 conjI [OF p2 p3]])
qed

theorem non_string_message_gives_500_witness:
  "JObj [(''message'', JInt 5)] = JObj [(''message'', JInt 5)] \<and>
   map_of [(''message'', JInt 5)] ''message'' = Some (JInt 5) \<and>
   (\<forall>s. JInt 5 \<noteq> JStr s) \<and>
   chat module_init (always (Inl (ConnectionError ''refused''))) (JObj [(''message'', JInt 5)]) =
     (Inl (AttributeError (quoted ''int'' @ '' object has no attribute '' @ quoted ''strip'')), io0) \<and>
   reply_status (dispatch (chat module_init (always (Inl (ConnectionError ''refused'')))
     (JObj [(''message'', JInt 5)]))) = Some 500 \<and>
   reply_json (dispatch (chat module_init (always (Inl (ConnectionError ''refused'')))
     (JObj [(''message'', JInt 5)]))) = Some (JObj [(''error'', JStr ''Internal server error'')]) \<and>
   reply_status (dispatch (chat_simple module_init (always (Inl (ConnectionError ''refused'')))
     (JObj [(''message'', JInt 5)]))) = Some 500 \<and>
   reply_status (chat module_init (always (Inl (ConnectionError ''refused'')))
     (JObj [(''message'', JInt 5)])) \<noteq> Some 400"
proof -
  let ?up = "always (Inl (ConnectionError ''refused''))"
  let ?d = "JObj [(''message'', JInt 5)]"
  note t = non_string_message_gives_500 [where data = ?d and kvs = "[(''message'', JInt 5)]" and v = "JInt 5"
      and a = module_init and up = ?up]
  have h: "?d = JObj [(''message'', JInt 5)] \<and>
      map_of [(''message'', JInt 5)] ''message'' = Some (JInt 5) \<and> (\<forall>s. JInt 5 \<noteq> JStr s)"
    by simp
  note a = mp [OF conjunct2 [OF conjunct2 [OF t]] h]
  have na: "no_attribute (JInt 5) ''strip'' =
      AttributeError (quoted ''int'' @ '' object has no attribute '' @ quoted ''strip'')"
    by (simp add: no_attribute_def)
  have "\<not> (\<not> truthy ?d \<or>
      (\<exists>kvs. ?d = JObj kvs \<and>
         (map_of kvs ''message'' = None \<or>
          (\<exists>s. map_of kvs ''message'' = Some (JStr s) \<and> strip s = []))))"
    by simp
  with conjunct1 [OF t] have n4: "reply_status (chat module_init ?up ?d) \<noteq> Some 400"
    by (simp only: simp_thms)
  show ?thesis
    using h a n4 unfolding na by blast
qed


section \<open>Properties of chat_simple and of the start-up configuration\<close>

lemma chat_simple_accept:
  "validate data = Accept m model \<Longrightarrow>
   chat_simple a up data =
     (case up 0 (simple_request a model m) of
        Inl e \<Rightarrow> simple_except e \<lparr> calls = [simple_request a model m], logs = [] \<rparr>
      | Inr r \<Rightarrow>
          (case raise_for_status r of
             Inl e \<Rightarrow> simple_except e \<lparr> calls = [simple_request a model m], logs = [] \<rparr>
           | Inr u \<Rightarrow>
               (case json_result r of
                  Inl e \<Rightarrow> simple_except e \<lparr> calls = [simple_request a model m], logs = [] \<rparr>
                | Inr j \<Rightarrow>
                    (Inr (jsonify j 200), \<lparr> calls = [simple_request a model m], logs = [] \<rparr>))))"
  by (simp add: chat_simple_def send_def io0_def split: sum.splits)

lemma simple_except_calls: "calls (snd (simple_except e s)) = calls s"
  by (cases e) (simp_all add: simple_except_def log_error_def)

lemma simple_except_status:
  "reply_status (simple_except e s) =
     (case e of ConnectionError m \<Rightarrow> Some 503 | Timeout m \<Rightarrow> Some 503
      | RequestException m \<Rightarrow> Some 500 | _ \<Rightarrow> None)"
  by (cases e) (simp_all add: simple_except_def reply_status_def jsonify_def)

lemma simple_except_json:
  "reply_json (simple_except e s) =
     (case e of ConnectionError m \<Rightarrow> Some connection_failed | Timeout m \<Rightarrow> Some connection_failed
      | RequestException m \<Rightarrow> Some (JObj [(''error'', JStr m)]) | _ \<Rightarrow> None)"
  by (cases e) (simp_all add: simple_except_def reply_json_def jsonify_def)

lemma chat_simple_calls:
  "validate data = Accept m model \<Longrightarrow>
   calls (snd (chat_simple a up data)) = [simple_request a model m]"
  by (simp add: chat_simple_accept simple_except_calls split: sum.splits)

lemma reply_jsonify:
  "reply_status (Inr (jsonify j c), s) = Some c"
  "reply_json (Inr (jsonify j c), s) = Some j"
  by (simp_all add: reply_status_def reply_json_def jsonify_def)

lemma chat_simple_status:
  "validate data = Accept m model \<Longrightarrow>
   reply_status (chat_simple a up data) =
     (case simple_failure (up 0 (simple_request a model m)) of
        None \<Rightarrow> Some 200
      | Some e \<Rightarrow>
          (case e of ConnectionError m \<Rightarrow> Some 503 | Timeout m \<Rightarrow> Some 503
           | RequestException m \<Rightarrow> Some 500 | _ \<Rightarrow> None))"
  by (simp add: chat_simple_accept simple_failure_def simple_except_status reply_jsonify
      split: sum.splits)

lemma chat_simple_json:
  "validate data = Accept m model \<Longrightarrow>
   reply_json (chat_simple a up data) =
     (case simple_failure (up 0 (simple_request a model m)) of
        None \<Rightarrow> (case up 0 (simple_request a model m) of
                   Inr r \<Rightarrow> (case json_result r of Inr j \<Rightarrow> Some j | Inl e \<Rightarrow> None)
                 | Inl e \<Rightarrow> None)
      | Some e \<Rightarrow>
          (case e of ConnectionError m \<Rightarrow> Some connection_failed
           | Timeout m \<Rightarrow> Some connection_failed
           | RequestException m \<Rightarrow> Some (JObj [(''error'', JStr m)]) | _ \<Rightarrow> None))"
  by (simp add: chat_simple_accept simple_failure_def simple_except_json reply_jsonify
      split: sum.splits)

text \<open>
  Claim C7. For every request that passes validation, \<^verbatim>\<open>/chat/simple\<close> answers 503 with
  the connection error body when the upstream POST fails to connect or times out; 500
  carrying the failure's message text for another request failure, such as an upstream
  status from 400 to 599; and on success 200 with the daemon's JSON body unchanged. The
  three statuses are told apart by the exception raised in the \<^verbatim>\<open>try\<close> body: 503 exactly
  for a connection error or timeout, 500 exactly for another requests exception, 200
  exactly when nothing is raised. One upstream call is made.
\<close>

theorem chat_simple_status_classes:
  "validate data = Accept m model \<longrightarrow>
     (up 0 (simple_request a model m) = Inl (ConnectionError msg) \<or>
      up 0 (simple_request a model m) = Inl (Timeout msg) \<longrightarrow>
        reply_status (chat_simple a up data) = Some 503 \<and>
        reply_json (chat_simple a up data) =
          Some (JObj [(''error'', JStr ''Connection to Ollama failed. Is Ollama running?'')])) \<and>
     (up 0 (simple_request a model m) = Inl (RequestException msg) \<longrightarrow>
        reply_status (chat_simple a up data) = Some 500 \<and>
        reply_json (chat_simple a up data) = Some (JObj [(''error'', JStr msg)])) \<and>
     (up 0 (simple_request a model m) = Inr r \<and>
      400 \<le> status_code r \<and> status_code r < 600 \<longrightarrow>
        reply_status (chat_simple a up data) = Some 500 \<and>
        reply_json (chat_simple a up data) = Some (JObj [(''error'', JStr (status_error r))])) \<and>
     (up 0 (simple_request a model m) = Inr r \<and>
      \<not> (400 \<le> status_code r \<and> status_code r < 600) \<and> json_result r = Inr j \<longrightarrow>
        reply_status (chat_simple a up data) = Some 200 \<and>
        reply_json (chat_simple a up data) = Some j) \<and>
     (reply_status (chat_simple a up data) = Some 503) =
       (\<exists>t. simple_failure (up 0 (simple_request a model m)) = Some (ConnectionError t) \<or>
            simple_failure (up 0 (simple_request a model m)) = Some (Timeout t)) \<and>
     (reply_status (chat_simple a up data) = Some 500) =
       (\<exists>t. simple_failure (up 0 (simple_request a model m)) = Some (RequestException t)) \<and>
     (reply_status (chat_simple a up data) = Some 200) =
       (simple_failure (up 0 (simple_request a model m)) = None) \<and>
     calls (snd (chat_simple a up data)) = [simple_request a model m]"
proof
  assume acc: "validate data = Accept m model"
  let ?out = "up 0 (simple_request a model m)"
  note st = chat_simple_status [OF acc, of a up]
  note js = chat_simple_json [OF acc, of a up]
  have p1: "?out = Inl (ConnectionError msg) \<or> ?out = Inl (Timeout msg) \<longrightarrow>
        reply_status (chat_simple a up data) = Some 503 \<and>
        reply_json (chat_simple a up data) =
          Some (JObj [(''error'', JStr ''Connection to Ollama failed. Is Ollama running?'')])"
    by (auto simp: st js simple_failure_def connection_failed_def)
  have p2: "?out = Inl (RequestException msg) \<longrightarrow>
        reply_status (chat_simple a up data) = Some 500 \<and>
        reply_json (chat_simple a up data) = Some (JObj [(''error'', JStr msg)])"
    by (auto simp: st js simple_failure_def)
  have p3: "?out = Inr r \<and> 400 \<le> status_code r \<and> status_code r < 600 \<longrightarrow>
        reply_status (chat_simple a up data) = Some 500 \<and>
        reply_json (chat_simple a up data) = Some (JObj [(''error'', JStr (status_error r))])"
    by (auto simp: st js simple_failure_def raise_for_status_def)
  have p4: "?out = Inr r \<and>
      \<not> (400 \<le> status_code r \<and> status_code r < 600) \<and> json_result r = Inr j \<longrightarrow>
        reply_status (chat_simple a up data) = Some 200 \<and>
        reply_json (chat_simple a up data) = Some j"
    by (auto simp: st js simple_failure_def raise_for_status_def)
  have p5: "(reply_status (chat_simple a up data) = Some 503) =
       (\<exists>t. simple_failure ?out = Some (ConnectionError t) \<or>
            simple_failure ?out = Some (Timeout t))"
    unfolding st by (cases "simple_failure ?out") (auto split: exn.splits)
  have p6: "(reply_status (chat_simple a up data) = Some 500) =
       (\<exists>t. simple_failure ?out = Some (RequestException t))"
    unfolding st by (cases "simple_failure ?out") (auto split: exn.splits)
  have p7: "(reply_status (chat_simple a up data) = Some 200) = (simple_failure ?out = None)"
    unfolding st by (cases "simple_failure ?out") (auto split: exn.splits)
  note p8 = chat_simple_calls [OF acc, of a up]
  show "(?out = Inl (ConnectionError msg) \<or> ?out = Inl (Timeout msg) \<longrightarrow>
        reply_status (chat_simple a up data) = Some 503 \<and>
        reply_json (chat_simple a up data) =
          Some (JObj [(''error'', JStr ''Connection to Ollama failed. Is Ollama running?'')])) \<and>
     (?out = Inl (RequestException msg) \<longrightarrow>
        reply_status (chat_simple a up data) = Some 500 \<and>
        reply_json (chat_simple a up data) = Some (JObj [(''error'', JStr msg)])) \<and>
     (?out = Inr r \<and> 400 \<le> status_code r \<and> status_code r < 600 \<longrightarrow>
        reply_status (chat_simple a up data) = Some 500 \<and>
        reply_json (chat_simple a up data) = Some (JObj [(''error'', JStr (status_error r))])) \<and>
     (?out = Inr r \<and>
      \<not> (400 \<le> status_code r \<and> status_code r < 600) \<and> json_result r = Inr j \<longrightarrow>
        reply_status (chat_simple a up data) = Some 200 \<and>
        reply_json (chat_simple a up data) = Some j) \<and>
     (reply_status (chat_simple a up data) = Some 503) =
       (\<exists>t. simple_failure ?out = Some (ConnectionError t) \<or>
            simple_failure ?out = Some (Timeout t)) \<and>
     (reply_status (chat_simple a up data) = Some 500) =
       (\<exists>t. simple_failure ?out = Some (RequestException t)) \<and>
     (reply_status (chat_simple a up data) = Some 200) = (simple_failure ?out = None) \<and>
     calls (snd (chat_simple a up data)) = [simple_request a model m]"
    by (rule conjI [OF p1 conjI [OF p2 conjI [OF p3 conjI [OF p4 conjI [OF p5 conjI [OF p6
        conjI [OF p7 p8]]]]]]])
qed

theorem chat_simple_status_classes_witness:
  "validate (JObj [(''message'', JStr ''hi'')]) = Accept ''hi'' (JStr ''codellama'') \<and>
   always (Inl (ConnectionError ''refused'')) 0
     (simple_request module_init (JStr ''codellama'') ''hi'') = Inl (ConnectionError ''refused'') \<and>
   reply_status (chat_simple module_init (always (Inl (ConnectionError ''refused'')))
     (JObj [(''message'', JStr ''hi'')])) = Some 503 \<and>
   reply_json (chat_simple module_init (always (Inl (ConnectionError ''refused'')))
     (JObj [(''message'', JStr ''hi'')])) =
     Some (JObj [(''error'', JStr ''Connection to Ollama failed. Is Ollama running?'')]) \<and>
   always (Inl (RequestException ''Invalid URL'')) 0
     (simple_request module_init (JStr ''codellama'') ''hi'') = Inl (RequestException ''Invalid URL'') \<and>
   reply_status (chat_simple module_init (always (Inl (RequestException ''Invalid URL'')))
     (JObj [(''message'', JStr ''hi'')])) = Some 500 \<and>
   reply_json (chat_simple module_init (always (Inl (RequestException ''Invalid URL'')))
     (JObj [(''message'', JStr ''hi'')])) = Some (JObj [(''error'', JStr ''Invalid URL'')]) \<and>
   status_code \<lparr> status_code = 404, status_error = ''404 Client Error: Not Found'',
       json_result = Inr (JObj [(''error'', JStr ''model not found'')]),
       body_lines = [], body_failure = None \<rparr> = 404 \<and>
   reply_status (chat_simple module_init
     (always (Inr \<lparr> status_code = 404, status_error = ''404 Client Error: Not Found'',
       json_result = Inr (JObj [(''error'', JStr ''model not found'')]),
       body_lines = [], body_failure = None \<rparr>))
     (JObj [(''message'', JStr ''hi'')])) = Some 500 \<and>
   reply_json (chat_simple module_init
     (always (Inr \<lparr> status_code = 404, status_error = ''404 Client Error: Not Found'',
       json_result = Inr (JObj [(''error'', JStr ''model not found'')]),
       body_lines = [], body_failure = None \<rparr>))
     (JObj [(''message'', JStr ''hi'')])) =
     Some (JObj [(''error'', JStr ''404 Client Error: Not Found'')]) \<and>
   reply_status (chat_simple module_init
     (always (Inr \<lparr> status_code = 200, status_error = [],
       json_result = Inr (JObj [(''response'', JStr ''Hi''), (''done'', JBool True)]),
       body_lines = [], body_failure = None \<rparr>))
     (JObj [(''message'', JStr ''hi'')])) = Some 200 \<and>
   reply_json (chat_simple module_init
     (always (Inr \<lparr> status_code = 200, status_error = [],
       json_result = Inr (JObj [(''response'', JStr ''Hi''), (''done'', JBool True)]),
       body_lines = [], body_failure = None \<rparr>))
     (JObj [(''message'', JStr ''hi'')])) =
     Some (JObj [(''response'', JStr ''Hi''), (''done'', JBool True)])"
proof -
  let ?d = "JObj [(''message'', JStr ''hi'')]"
  let ?rq = "simple_request module_init (JStr ''codellama'') ''hi''"
  let ?u1 = "always (Inl (ConnectionError ''refused''))"
  let ?r2 = "\<lparr> status_code = 404, status_error = ''404 Client Error: Not Found'',
       json_result = Inr (JObj [(''error'', JStr ''model not found'')]),
       body_lines = [], body_failure = None \<rparr>"
  let ?r3 = "\<lparr> status_code = 200, status_error = [],
       json_result = Inr (JObj [(''response'', JStr ''Hi''), (''done'', JBool True)]),
       body_lines = [], body_failure = None \<rparr>"
  have h1: "?u1 0 ?rq = Inl (ConnectionError ''refused'') \<or> ?u1 0 ?rq = Inl (Timeout ''refused'')"
    by (simp add: always_def)
  have h1': "?u1 0 ?rq = Inl (ConnectionError ''refused'')"
    by (simp add: always_def)
  note t1 = mp [OF chat_simple_status_classes [where data = ?d and m = "''hi''" and model = "JStr ''codellama''"
        and a = module_init and up = ?u1 and msg = "''refused''"] validate_hi]
  note a1 = mp [OF conjunct1 [OF t1] h1]
  have h4: "always (Inl (RequestException ''Invalid URL'')) 0 ?rq =
      Inl (RequestException ''Invalid URL'')"
    by (simp add: always_def)
  note t4 = mp [OF chat_simple_status_classes [where data = ?d and m = "''hi''"
        and model = "JStr ''codellama''" and a = module_init
        and up = "always (Inl (RequestException ''Invalid URL''))" and msg = "''Invalid URL''"]
      validate_hi]
  note a4 = mp [OF conjunct1 [OF conjunct2 [OF t4]] h4]
  have h2: "always (Inr ?r2) 0 ?rq = Inr ?r2 \<and> 400 \<le> status_code ?r2 \<and> status_code ?r2 < 600"
    by (simp add: always_def)
  have s2: "status_code ?r2 = 404" by simp
  note t2 = mp [OF chat_simple_status_classes [where data = ?d and m = "''hi''" and model = "JStr ''codellama''"
        and a = module_init and up = "always (Inr ?r2)" and r = ?r2] validate_hi]
  have a2: "reply_status (chat_simple module_init (always (Inr ?r2)) ?d) = Some 500 \<and>
      reply_json (chat_simple module_init (always (Inr ?r2)) ?d) =
        Some (JObj [(''error'', JStr ''404 Client Error: Not Found'')])"
    using mp [OF conjunct1 [OF conjunct2 [OF conjunct2 [OF t2]]] h2] by simp
  have h3: "always (Inr ?r3) 0 ?rq = Inr ?r3 \<and>
      \<not> (400 \<le> status_code ?r3 \<and> status_code ?r3 < 600) \<and>
      json_result ?r3 = Inr (JObj [(''response'', JStr ''Hi''), (''done'', JBool True)])"
    by (simp add: always_def)
  note t3 = mp [OF chat_simple_status_classes [where data = ?d and m = "''hi''" and model = "JStr ''codellama''"
        and a = module_init and up = "always (Inr ?r3)" and r = ?r3
        and j = "JObj [(''response'', JStr ''Hi''), (''done'', JBool True)]"] validate_hi]
  note a3 = mp [OF conjunct1 [OF conjunct2 [OF conjunct2 [OF conjunct2 [OF t3]]]] h3]
  show ?thesis
    using validate_hi h1' a1 h4 a4 s2 a2 a3 by blast
qed

lemma client_url_after_main:
  "base_url (ollama (main_globals c module_init)) = ''http://localhost:11434''"
  by (simp add: main_globals_def module_init_def OllamaClient_init_def OLLAMA_API_URL_default_def)

text \<open>
  Claim C4 on the code. \<^verbatim>\<open>main()\<close> assigns the global \<^verbatim>\<open>OLLAMA_API_URL\<close> only: the client
  \<^verbatim>\<open>ollama\<close>, built when the module was loaded, keeps the default base URL whatever the
  command line says. Started with \<^verbatim>\<open>--ollama-url http://10.0.0.5:11434\<close>, the streaming
  \<^verbatim>\<open>/chat\<close> path posts to \<^verbatim>\<open>http://localhost:11434/api/generate\<close>, while \<^verbatim>\<open>/chat/simple\<close>
  posts to the URL given.
\<close>

theorem chat_stream_ignores_ollama_url:
  "base_url (ollama (main_globals c module_init)) = ''http://localhost:11434'' \<and>
   OLLAMA_API_URL (main_globals c module_init) = ollama_url (parse_arguments c) \<and>
   map url (calls (snd (chat
     (main_globals \<lparr> opt_port = None, opt_host = None, opt_debug = False,
                     opt_ollama_url = Some ''http://10.0.0.5:11434'' \<rparr> module_init)
     up (JObj [(''message'', JStr ''hi'')])))) = [''http://localhost:11434/api/generate''] \<and>
   map url (calls (snd (chat_simple
     (main_globals \<lparr> opt_port = None, opt_host = None, opt_debug = False,
                     opt_ollama_url = Some ''http://10.0.0.5:11434'' \<rparr> module_init)
     up (JObj [(''message'', JStr ''hi'')])))) = [''http://10.0.0.5:11434/api/generate'']"
proof -
  have a: "base_url (ollama (main_globals c module_init)) = ''http://localhost:11434''"
    by (rule client_url_after_main)
  have b: "OLLAMA_API_URL (main_globals c module_init) = ollama_url (parse_arguments c)"
    by (simp add: main_globals_def)
  have c: "map url (calls (snd (chat
     (main_globals \<lparr> opt_port = None, opt_host = None, opt_debug = False,
                     opt_ollama_url = Some ''http://10.0.0.5:11434'' \<rparr> module_init)
     up (JObj [(''message'', JStr ''hi'')])))) = [''http://localhost:11434/api/generate'']"
    by (simp add: chat_def validate_hi Let_def generate_request_def client_url_after_main)
  have d: "map url (calls (snd (chat_simple
     (main_globals \<lparr> opt_port = None, opt_host = None, opt_debug = False,
                     opt_ollama_url = Some ''http://10.0.0.5:11434'' \<rparr> module_init)
     up (JObj [(''message'', JStr ''hi'')])))) = [''http://10.0.0.5:11434/api/generate'']"
    by (simp add: chat_simple_calls [OF validate_hi] simple_request_def main_globals_def
        parse_arguments_def)
  show ?thesis
    by (rule conjI [OF a conjI [OF b conjI [OF c d]]])
qed



section \<open>Properties of the health endpoint\<close>

lemma check_health_result:
  "check_health self up s =
     (case up (length (calls s)) (tags_request self) of
        Inr r \<Rightarrow> Inr (status_code r = 200)
      | Inl e \<Rightarrow> if is_RequestException e then Inr False else Inl e,
      s\<lparr> calls := calls s @ [tags_request self] \<rparr>)"
  by (simp add: check_health_def send_def split: sum.splits)

lemma check_health_true_iff:
  "(fst (check_health self up s) = Inr True) =
     (\<exists>r. up (length (calls s)) (tags_request self) = Inr r \<and> status_code r = 200)"
  by (auto simp: check_health_result split: sum.splits)

lemma check_health_raises_iff:
  "(fst (check_health self up s) = Inl e) =
     (up (length (calls s)) (tags_request self) = Inl e \<and> \<not> is_RequestException e)"
  by (auto simp: check_health_result split: sum.splits)

lemma model_names_objects:
  "list_all is_object ms \<Longrightarrow> \<exists>ns. model_names ms = Inr ns \<and> length ns = length ms"
proof (induction ms)
  case Nil
  then show ?case by simp
next
  case (Cons m ms)
  then obtain ns where "model_names ms = Inr ns" "length ns = length ms" by auto
  moreover from Cons.prems obtain kvs where "m = JObj kvs"
    by (cases m) (simp_all add: is_object_def)
  ultimately show ?case by simp
qed

lemma health_degraded:
  assumes "fst (check_health (ollama a) up io0) = Inr False"
  shows "health_check a up =
     (Inr (jsonify (JObj [(''status'', JStr ''degraded''), (''ollama_connected'', JBool False),
                         (''models_available'', JInt 0), (''models'', JArr [])]) 200),
      \<lparr> calls = [tags_request (ollama a)], logs = [] \<rparr>)"
proof -
  have "check_health (ollama a) up io0 = (Inr False, \<lparr> calls = [tags_request (ollama a)], logs = [] \<rparr>)"
    using assms by (auto simp: check_health_result io0_def split: sum.splits if_splits)
  then show ?thesis
    by (simp add: health_check_def py_len_def py_iter_def health_body_def)
qed

lemma list_models_ok:
  assumes "listing_ok (up (length (calls s)) (tags_request self))"
  shows "\<exists>ms s'. list_models self up s = (Inr (JArr ms), s') \<and> list_all is_object ms"
proof (cases "up (length (calls s)) (tags_request self)")
  case (Inl e)
  with assms show ?thesis
    by (simp add: listing_ok_def list_models_def send_def list_models_except_def)
next
  case (Inr r)
  show ?thesis
  proof (cases "status_code r = 200")
    case False
    with Inr show ?thesis by (simp add: list_models_def send_def)
  next
    case True
    show ?thesis
    proof (cases "json_result r")
      case (Inl e)
      with assms Inr True show ?thesis
        by (simp add: listing_ok_def list_models_def send_def list_models_except_def)
    next
      case j: (Inr v)
      with assms Inr True obtain kvs ms where
        "v = JObj kvs" "dict_get kvs ''models'' (JArr []) = JArr ms" "list_all is_object ms"
        by (auto simp: listing_ok_def split: json.splits)
      with Inr True j show ?thesis by (simp add: list_models_def send_def)
    qed
  qed
qed

lemma health_ok:
  assumes p: "probe_ok (up 0 (tags_request (ollama a)))"
    and l: "listing_ok (up 1 (tags_request (ollama a)))"
  shows "reply_status (health_check a up) = Some 200"
proof -
  let ?s1 = "\<lparr> calls = [tags_request (ollama a)], logs = [] \<rparr>"
  from p obtain b where c: "check_health (ollama a) up io0 = (Inr b, ?s1)"
    by (auto simp: check_health_result io0_def probe_ok_def split: sum.splits)
  show ?thesis
  proof (cases b)
    case False
    with c have "fst (check_health (ollama a) up io0) = Inr False" by simp
    from health_degraded [OF this] show ?thesis by (simp add: reply_jsonify)
  next
    case True
    have "listing_ok (up (length (calls ?s1)) (tags_request (ollama a)))"
      using l by simp
    from list_models_ok [where up = up and s = ?s1 and self = "ollama a", OF this] obtain ms s' where
      lm: "list_models (ollama a) up ?s1 = (Inr (JArr ms), s')" and ob: "list_all is_object ms"
      by blast
    from model_names_objects [OF ob] obtain ns where ns: "model_names ms = Inr ns" by blast
    show ?thesis
      using c True lm ns
      by (simp add: health_check_def py_len_def py_iter_def reply_jsonify)
  qed
qed


lemma dispatch_status:
  "reply_status res = Some c \<Longrightarrow> reply_status (dispatch res) = Some c"
  by (cases res) (auto simp: reply_status_def dispatch_def split: sum.splits)

text \<open>
  Claim C8, as amended. \<^verbatim>\<open>check_health\<close> returns true exactly when the probe gets a
  response with status 200, and raises only what the call raises outside the requests
  exception hierarchy: a connection failure, a timeout or any other requests exception
  gives false. When the probe fails, \<^verbatim>\<open>/health\<close> answers 200 with status \<^verbatim>\<open>degraded\<close>,
  \<^verbatim>\<open>ollama_connected\<close> false, \<^verbatim>\<open>models_available\<close> 0 and no models, after one upstream call.
  \<^verbatim>\<open>/health\<close> answers 200, and not a 5xx, for every upstream whose probe returns or fails
  with a requests exception and whose listing fails with a requests exception, has a
  status other than 200, or holds an object whose \<^verbatim>\<open>models\<close> is absent or a list of
  objects.
\<close>

theorem health_endpoint:
  "(fst (check_health self up s) = Inr True) =
     (\<exists>r. up (length (calls s)) (tags_request self) = Inr r \<and> status_code r = 200) \<and>
   (fst (check_health self up s) = Inl e) =
     (up (length (calls s)) (tags_request self) = Inl e \<and> \<not> is_RequestException e) \<and>
   (fst (check_health (ollama a) up io0) = Inr False \<longrightarrow>
      fst (health_check a up) =
        Inr (jsonify (JObj [(''status'', JStr ''degraded''), (''ollama_connected'', JBool False),
                           (''models_available'', JInt 0), (''models'', JArr [])]) 200) \<and>
      calls (snd (health_check a up)) = [tags_request (ollama a)] \<and>
      reply_status (dispatch (health_check a up)) = Some 200) \<and>
   (probe_ok (up 0 (tags_request (ollama a))) \<and> listing_ok (up 1 (tags_request (ollama a))) \<longrightarrow>
      reply_status (health_check a up) = Some 200 \<and>
      reply_status (dispatch (health_check a up)) = Some 200)"
proof -
  have p3: "fst (check_health (ollama a) up io0) = Inr False \<longrightarrow>
      fst (health_check a up) =
        Inr (jsonify (JObj [(''status'', JStr ''degraded''), (''ollama_connected'', JBool False),
                           (''models_available'', JInt 0), (''models'', JArr [])]) 200) \<and>
      calls (snd (health_check a up)) = [tags_request (ollama a)] \<and>
      reply_status (dispatch (health_check a up)) = Some 200"
  proof
    assume "fst (check_health (ollama a) up io0) = Inr False"
    note h = health_degraded [OF this]
    have "reply_status (health_check a up) = Some 200"
      by (simp add: h reply_jsonify)
    from dispatch_status [OF this] show
      "fst (health_check a up) =
        Inr (jsonify (JObj [(''status'', JStr ''degraded''), (''ollama_connected'', JBool False),
                           (''models_available'', JInt 0), (''models'', JArr [])]) 200) \<and>
       calls (snd (health_check a up)) = [tags_request (ollama a)] \<and>
       reply_status (dispatch (health_check a up)) = Some 200"
      by (simp add: h)
  qed
  have p4: "probe_ok (up 0 (tags_request (ollama a))) \<and>
      listing_ok (up 1 (tags_request (ollama a))) \<longrightarrow>
      reply_status (health_check a up) = Some 200 \<and>
      reply_status (dispatch (health_check a up)) = Some 200"
  proof (intro impI, elim conjE)
    assume p: "probe_ok (up 0 (tags_request (ollama a)))"
      and l: "listing_ok (up 1 (tags_request (ollama a)))"
    note ok = health_ok [where up = up, OF p l]
    from ok dispatch_status [OF ok]
    show "reply_status (health_check a up) = Some 200 \<and>
      reply_status (dispatch (health_check a up)) = Some 200"
      by (rule conjI)
  qed
  show ?thesis
    by (rule conjI [OF check_health_true_iff conjI [OF check_health_raises_iff conjI [OF p3 p4]]])
qed

theorem health_endpoint_witness:
  "fst (check_health (ollama module_init) (always (Inl (ConnectionError ''refused''))) io0) =
     Inr False \<and>
   fst (health_check module_init (always (Inl (ConnectionError ''refused'')))) =
     Inr (jsonify (JObj [(''status'', JStr ''degraded''), (''ollama_connected'', JBool False),
                        (''models_available'', JInt 0), (''models'', JArr [])]) 200) \<and>
   reply_status (dispatch (health_check module_init
     (always (Inl (ConnectionError ''refused''))))) = Some 200 \<and>
   probe_ok (always (Inr \<lparr> status_code = 200, status_error = [],
       json_result = Inr (JObj [(''models'', JArr [JObj [(''name'', JStr ''codellama'')]])]),
       body_lines = [], body_failure = None \<rparr>) 0 (tags_request (ollama module_init))) \<and>
   listing_ok (always (Inr \<lparr> status_code = 200, status_error = [],
       json_result = Inr (JObj [(''models'', JArr [JObj [(''name'', JStr ''codellama'')]])]),
       body_lines = [], body_failure = None \<rparr>) 1 (tags_request (ollama module_init))) \<and>
   reply_status (dispatch (health_check module_init
     (always (Inr \<lparr> status_code = 200, status_error = [],
       json_result = Inr (JObj [(''models'', JArr [JObj [(''name'', JStr ''codellama'')]])]),
       body_lines = [], body_failure = None \<rparr>)))) = Some 200"
proof -
  let ?u1 = "always (Inl (ConnectionError ''refused''))"
  let ?r = "\<lparr> status_code = 200, status_error = [],
       json_result = Inr (JObj [(''models'', JArr [JObj [(''name'', JStr ''codellama'')]])]),
       body_lines = [], body_failure = None \<rparr>"
  have h1: "fst (check_health (ollama module_init) ?u1 io0) = Inr False"
    by (simp add: check_health_result always_def)
  note t1 = health_endpoint [where up = ?u1 and a = module_init]
  note a1 = mp [OF conjunct1 [OF conjunct2 [OF conjunct2 [OF t1]]] h1]
  have h2: "probe_ok (always (Inr ?r) 0 (tags_request (ollama module_init)))"
    by (simp add: probe_ok_def always_def)
  have h3: "listing_ok (always (Inr ?r) 1 (tags_request (ollama module_init)))"
    by (simp add: listing_ok_def always_def dict_get_def is_object_def)
  note t2 = health_endpoint [where up = "always (Inr ?r)" and a = module_init]
  note a2 = mp [OF conjunct2 [OF conjunct2 [OF conjunct2 [OF t2]]] conjI [OF h2 h3]]
  show ?thesis
    using h1 a1 h2 h3 a2 by blast
qed


text \<open>
  Claim C8 as stated fails: \<^verbatim>\<open>/health\<close> is not free of 5xx for every upstream. When the
  daemon answers the listing with status 200 and a JSON array, \<^verbatim>\<open>list_models\<close> calls
  \<^verbatim>\<open>.get\<close> on a list and the \<^verbatim>\<open>AttributeError\<close> leaves \<^verbatim>\<open>health_check\<close>; with the body
  \<^verbatim>\<open>{"models": null}\<close> it is \<^verbatim>\<open>len(None)\<close> that raises. Both end in the 500 reply.
\<close>

theorem health_500_on_unexpected_listing:
  "fst (health_check module_init
     (always (Inr \<lparr> status_code = 200, status_error = [], json_result = Inr (JArr []),
                    body_lines = [], body_failure = None \<rparr>))) =
     Inl (no_attribute (JArr []) ''get'') \<and>
   reply_status (dispatch (health_check module_init
     (always (Inr \<lparr> status_code = 200, status_error = [], json_result = Inr (JArr []),
                    body_lines = [], body_failure = None \<rparr>)))) = Some 500 \<and>
   reply_status (dispatch (health_check module_init
     (always (Inr \<lparr> status_code = 200, status_error = [],
                    json_result = Inr (JObj [(''models'', JNull)]),
                    body_lines = [], body_failure = None \<rparr>)))) = Some 500"
  by (simp add: health_check_def check_health_def list_models_def list_models_except_def
      send_def io0_def always_def no_attribute_def py_len_def dict_get_def
      dispatch_def internal_error_def reply_status_def jsonify_def)


end
